theory Spec2Isabelle
  imports Complex_Main "HOL-Library.Char_ord" "HOL-Library.List_Lexorder"
begin

section \<open>Order lifecycle and pricing of the multi-tenant ordering backend\<close>

text \<open>
  The development embeds the order model (\<open>models/order.js\<close>), the order service
  (\<open>services/orderService.js\<close>), the order controller (\<open>controllers/orderController.js\<close>),
  the notification part of the bot service (\<open>services/botService.js\<close>), the request
  schemas of \<open>utils/validator.js\<close> and the wiring of \<open>routes/order.js\<close>.

  Conventions. A JavaScript number is an exact rational (\<open>rat\<close>); rounding, \<open>NaN\<close> and
  the infinities of IEEE doubles are outside the model, except that the \<open>NaN\<close> produced by
  \<open>parseInt\<close> is the value \<open>None\<close>. A field that may be \<open>undefined\<close> or \<open>null\<close> is an
  \<open>option\<close>. Strings are byte strings. The document store is reliable: a query or a save
  never fails for reasons of its own, only through schema validation. The system-managed
  \<open>updatedAt\<close> stamp is read by none of the operations below and is left out of the record.
\<close>

subsection \<open>Strings and numbers as JavaScript handles them\<close>

definition starts_with :: "string \<Rightarrow> string \<Rightarrow> bool" where
  "starts_with p s = (take (length p) s = p)"

text \<open>\<open>s.includes(sub)\<close>\<close>

fun includes_str :: "string \<Rightarrow> string \<Rightarrow> bool" where
  "includes_str [] sub = (sub = [])"
| "includes_str (c # cs) sub = (starts_with sub (c # cs) \<or> includes_str cs sub)"

text \<open>\<open>s.toLowerCase()\<close> on the ASCII letters; other bytes are kept.\<close>

definition lower_char :: "char \<Rightarrow> char" where
  "lower_char c = (if CHR ''A'' \<le> c \<and> c \<le> CHR ''Z'' then char_of (of_char c + (32::nat)) else c)"

definition toLowerCase :: "string \<Rightarrow> string" where
  "toLowerCase s = map lower_char s"

text \<open>\<open>s.split(d)\<close> for a one-character separator: never the empty array.\<close>

fun split_on :: "char \<Rightarrow> string \<Rightarrow> string list" where
  "split_on d [] = [[]]"
| "split_on d (c # cs) =
     (if c = d then [] # split_on d cs
      else (case split_on d cs of [] \<Rightarrow> [[c]] | p # ps \<Rightarrow> (c # p) # ps))"

text \<open>\<open>xs[i]\<close> on an array: \<open>undefined\<close> out of range.\<close>

definition nth_opt :: "'a list \<Rightarrow> nat \<Rightarrow> 'a option" where
  "nth_opt xs i = (if i < length xs then Some (xs ! i) else None)"

definition is_digit :: "char \<Rightarrow> bool" where
  "is_digit c = (CHR ''0'' \<le> c \<and> c \<le> CHR ''9'')"

definition digit_val :: "char \<Rightarrow> nat" where
  "digit_val c = of_char c - 48"

definition is_space :: "char \<Rightarrow> bool" where
  "is_space c = (c = CHR '' '' \<or> (of_char c :: nat) \<in> {9, 10, 11, 12, 13})"

definition hex_val :: "char \<Rightarrow> nat option" where
  "hex_val c =
     (if is_digit c then Some (digit_val c)
      else if CHR ''a'' \<le> c \<and> c \<le> CHR ''f'' then Some (of_char c - 87)
      else if CHR ''A'' \<le> c \<and> c \<le> CHR ''F'' then Some (of_char c - 55)
      else None)"

definition digits_value :: "nat \<Rightarrow> nat list \<Rightarrow> nat" where
  "digits_value radix ds = foldl (\<lambda>a d. radix * a + d) 0 ds"

text \<open>
  \<open>parseInt(x)\<close> with no radix: \<open>undefined\<close> gives \<open>NaN\<close>; otherwise leading white space is
  skipped, one sign is read, a \<open>0x\<close> prefix selects base 16, and the longest run of digits
  is the value; no digit at all gives \<open>NaN\<close> (here \<open>None\<close>).
\<close>

definition parseInt :: "string option \<Rightarrow> int option" where
  "parseInt x =
     (case x of
        None \<Rightarrow> None
      | Some s \<Rightarrow>
         (let t = dropWhile is_space s;
              neg = (t \<noteq> [] \<and> hd t = CHR ''-'');
              u = (if t \<noteq> [] \<and> (hd t = CHR ''-'' \<or> hd t = CHR ''+'') then tl t else t);
              hex = (starts_with ''0x'' u \<or> starts_with ''0X'' u);
              ds = (if hex then map (\<lambda>c. the (hex_val c)) (takeWhile (\<lambda>c. hex_val c \<noteq> None) (drop 2 u))
                    else map digit_val (takeWhile is_digit u));
              v = int (digits_value (if hex then 16 else 10) ds)
          in if ds = [] then None else Some (if neg then - v else v)))"

definition digit_char :: "nat \<Rightarrow> char" where
  "digit_char n = char_of (48 + n)"

fun show_nat :: "nat \<Rightarrow> string" where
  "show_nat n = (if n < 10 then [digit_char n] else show_nat (n div 10) @ [digit_char (n mod 10)])"

declare show_nat.simps [simp del]

text \<open>\<open>n.toString()\<close> of an integer-valued number, and of \<open>NaN\<close>.\<close>

definition num_toString :: "int option \<Rightarrow> string" where
  "num_toString x =
     (case x of
        None \<Rightarrow> ''NaN''
      | Some n \<Rightarrow> (if n < 0 then CHR ''-'' # show_nat (nat (- n)) else show_nat (nat n)))"

definition padStart :: "nat \<Rightarrow> char \<Rightarrow> string \<Rightarrow> string" where
  "padStart n c s = replicate (n - length s) c @ s"

subsection \<open>The order document (models/order.js)\<close>

record item_option =
  opt_name :: string
  opt_price :: "rat option"

record order_item =
  productId :: "string option"
  item_name :: "string option"
  flavor :: "string option"
  quantity :: rat
  unitPrice :: rat
  options :: "item_option list option"

record customer_info =
  cust_name :: "string option"
  cust_phone :: "string option"
  cust_address :: "string option"

record order =
  oid :: nat
  tenantId :: string
  orderNumber :: string
  status :: string
  customer :: customer_info
  items :: "order_item list"
  paymentMethod :: "string option"
  changeFor :: "rat option"
  deliveryFee :: rat
  subtotal :: rat
  total :: rat
  rating :: "rat option"
  order_notes :: "string option"
  createdAt :: int

definition status_enum :: "string list" where
  "status_enum = [''pending'', ''confirmed'', ''preparing'', ''delivering'', ''completed'', ''cancelled'']"

definition payment_enum :: "string list" where
  "payment_enum = [''pix'', ''credit-card'', ''cash'']"

text \<open>
  Schema validation run by \<open>save()\<close>: required paths, the enums, \<open>min\<close>/\<open>max\<close>. A required
  string must be non-empty.
\<close>

definition truthy_str :: "string option \<Rightarrow> bool" where
  "truthy_str x = (case x of None \<Rightarrow> False | Some s \<Rightarrow> s \<noteq> [])"

definition schema_valid :: "order \<Rightarrow> bool" where
  "schema_valid ord =
     (orderNumber ord \<noteq> []
      \<and> status ord \<in> set status_enum
      \<and> truthy_str (cust_name (customer ord)) \<and> truthy_str (cust_phone (customer ord))
      \<and> list_all (\<lambda>it. 1 \<le> quantity it) (items ord)
      \<and> (case paymentMethod ord of None \<Rightarrow> False | Some p \<Rightarrow> p \<in> set payment_enum)
      \<and> (case rating ord of None \<Rightarrow> True | Some r \<Rightarrow> 1 \<le> r \<and> r \<le> 5))"

subsection \<open>Order numbers (OrderSchema.statics.generateOrderNumber)\<close>

text \<open>\<open>today.toISOString().split('T')[0].replace(/-/g, '')\<close>, from the clock's ISO string.\<close>

definition dateStr :: "string \<Rightarrow> string" where
  "dateStr today = filter (\<lambda>c. c \<noteq> CHR ''-'') (hd (split_on (CHR ''T'') today))"

definition order_prefix :: "string \<Rightarrow> string" where
  "order_prefix d = ''ORD-'' @ d @ ''-''"

text \<open>
  \<open>findOne({tenantId, orderNumber: /^ORD-<dateStr>-/}, ..., {sort: {orderNumber: -1}})\<close>:
  the matching document with the greatest order number in the byte order of strings. The
  date string holds digits only, so the pattern is a literal prefix.
\<close>

definition findLastOrder :: "order list \<Rightarrow> string \<Rightarrow> string \<Rightarrow> order option" where
  "findLastOrder os t d =
     (case filter (\<lambda>ord. tenantId ord = t \<and> starts_with (order_prefix d) (orderNumber ord)) os of
        [] \<Rightarrow> None
      | m # ms \<Rightarrow> Some (fold (\<lambda>ord best. if orderNumber best < orderNumber ord then ord else best) ms m))"

definition generateOrderNumber :: "order list \<Rightarrow> string \<Rightarrow> string \<Rightarrow> string" where
  "generateOrderNumber os t today =
     (let d = dateStr today;
          sequence = (case findLastOrder os t d of
                        None \<Rightarrow> Some 1
                      | Some lastOrder \<Rightarrow>
                          map_option (\<lambda>n. n + 1)
                            (parseInt (nth_opt (split_on (CHR ''-'') (orderNumber lastOrder)) 2)))
      in order_prefix d @ padStart 3 (CHR ''0'') (num_toString sequence))"

subsection \<open>Catalog lookup and pricing (orderService.createOrder)\<close>

record size_price =
  sizeName :: string

record product =
  prod_id :: string
  prod_tenant :: string
  available :: bool
  productType :: string
  sizesPrices :: "size_price list"

text \<open>\<open>Catalog.findOne({_id: item.productId, tenantId, available: true})\<close>\<close>

definition Catalog_findOne :: "product list \<Rightarrow> string \<Rightarrow> string \<Rightarrow> product option" where
  "Catalog_findOne cat pid t = find (\<lambda>p. prod_id p = pid \<and> prod_tenant p = t \<and> available p) cat"

text \<open>
  What the service throws: the four objects of type \<open>validation\<close> (with their \<open>details\<close>)
  and the schema error raised by \<open>save()\<close>, which carries no \<open>type\<close>.
\<close>

datatype service_error =
    ItemsRequired
  | CustomerIncomplete
  | ProductUnavailable "string option"
  | InvalidPizzaSize string
  | SchemaError

fun error_type_is_validation :: "service_error \<Rightarrow> bool" where
  "error_type_is_validation SchemaError = False"
| "error_type_is_validation _ = True"

fun error_details :: "service_error \<Rightarrow> string list" where
  "error_details ItemsRequired = [''items'']"
| "error_details CustomerIncomplete = [''customer'']"
| "error_details (ProductUnavailable _) = [''items'']"
| "error_details (InvalidPizzaSize _) = [''items.options'']"
| "error_details SchemaError = []"

definition is_size_option :: "item_option \<Rightarrow> bool" where
  "is_size_option opt =
     (includes_str (toLowerCase (opt_name opt)) ''tamanho''
      \<or> includes_str (toLowerCase (opt_name opt)) ''tam''
      \<or> includes_str (toLowerCase (opt_name opt)) ''size'')"

text \<open>The checks made on one item before it is priced; \<open>None\<close> when nothing is thrown.\<close>

definition check_item :: "product list \<Rightarrow> string \<Rightarrow> order_item \<Rightarrow> service_error option" where
  "check_item cat t item =
     (case productId item of
        None \<Rightarrow> None
      | Some pid \<Rightarrow>
          if pid = [] then None
          else
            (case Catalog_findOne cat pid t of
               None \<Rightarrow> Some (ProductUnavailable (item_name item))
             | Some pr \<Rightarrow>
                 (case options item of
                    None \<Rightarrow> None
                  | Some opts \<Rightarrow>
                      if productType pr = ''pizza'' \<and> opts \<noteq> [] then
                        (case find is_size_option opts of
                           None \<Rightarrow> None
                         | Some sizeOption \<Rightarrow>
                             if list_ex (\<lambda>sp. toLowerCase (sizeName sp) = toLowerCase (opt_name sizeOption))
                                  (sizesPrices pr)
                             then None
                             else Some (InvalidPizzaSize (opt_name sizeOption)))
                      else None)))"

text \<open>\<open>opt.price || 0\<close>: an absent price and the price 0 both give 0.\<close>

definition price_or_zero :: "item_option \<Rightarrow> rat" where
  "price_or_zero opt = (case opt_price opt of None \<Rightarrow> 0 | Some p \<Rightarrow> (if p = 0 then 0 else p))"

definition item_amount :: "order_item \<Rightarrow> rat" where
  "item_amount item =
     (let itemTotal = quantity item * unitPrice item;
          optionsTotal =
            (case options item of
               None \<Rightarrow> 0
             | Some opts \<Rightarrow>
                 if opts \<noteq> [] then foldl (\<lambda>sum opt. sum + price_or_zero opt) 0 opts * quantity item
                 else 0)
      in itemTotal + optionsTotal)"

text \<open>The loop over the items, \<open>acc\<close> being the running \<open>subtotal\<close>: it stops at the first item
  that fails its checks.\<close>

fun process_items :: "product list \<Rightarrow> string \<Rightarrow> order_item list \<Rightarrow> rat \<Rightarrow> service_error + rat" where
  "process_items cat t [] acc = Inr acc"
| "process_items cat t (item # rest) acc =
     (case check_item cat t item of
        Some e \<Rightarrow> Inl e
      | None \<Rightarrow> process_items cat t rest (acc + item_amount item))"

subsection \<open>Creating an order (orderService.createOrder)\<close>

text \<open>The request body of an order creation, after JSON parsing.\<close>

record order_data =
  body_customer :: "customer_info option"
  body_items :: "order_item list option"
  body_paymentMethod :: "string option"
  body_changeFor :: "rat option"
  body_deliveryFee :: "rat option"
  body_notes :: "string option"

text \<open>
  Everything up to \<open>new Order({...})\<close>: the two structural checks, the loop, the totals and
  the order number read from the store as it is at that moment.
\<close>

definition build_order :: "product list \<Rightarrow> string \<Rightarrow> order list \<Rightarrow> string \<Rightarrow> order_data \<Rightarrow> service_error + order" where
  "build_order cat today os t orderData =
     (case body_items orderData of
        None \<Rightarrow> Inl ItemsRequired
      | Some its \<Rightarrow>
          if its = [] then Inl ItemsRequired
          else
            (case body_customer orderData of
               None \<Rightarrow> Inl CustomerIncomplete
             | Some c \<Rightarrow>
                 if \<not> truthy_str (cust_name c) \<or> \<not> truthy_str (cust_phone c) then Inl CustomerIncomplete
                 else
                   (case process_items cat t its 0 of
                      Inl e \<Rightarrow> Inl e
                    | Inr sub \<Rightarrow>
                        (let fee = (case body_deliveryFee orderData of None \<Rightarrow> 0 | Some f \<Rightarrow> f)
                         in Inr \<lparr> oid = 0, tenantId = t,
                                  orderNumber = generateOrderNumber os t today,
                                  status = ''pending'', customer = c, items = its,
                                  paymentMethod = body_paymentMethod orderData,
                                  changeFor = body_changeFor orderData,
                                  deliveryFee = fee, subtotal = sub, total = sub + fee,
                                  rating = None, order_notes = body_notes orderData,
                                  createdAt = 0 \<rparr>))))"

definition fresh_id :: "order list \<Rightarrow> nat" where
  "fresh_id os = Suc (fold max (map oid os) 0)"

text \<open>
  \<open>order.save()\<close> of a new document: the store gives it its identifier and creation time,
  validates it against the schema and appends it.
\<close>

definition save_new :: "int \<Rightarrow> order list \<Rightarrow> order \<Rightarrow> service_error + (order \<times> order list)" where
  "save_new now os ord =
     (let doc = ord\<lparr> oid := fresh_id os, createdAt := now \<rparr>
      in if schema_valid doc then Inr (doc, os @ [doc]) else Inl SchemaError)"

definition orderService_createOrder ::
    "product list \<Rightarrow> string \<Rightarrow> int \<Rightarrow> order list \<Rightarrow> string \<Rightarrow> order_data \<Rightarrow> service_error + (order \<times> order list)" where
  "orderService_createOrder cat today now os t orderData =
     (case build_order cat today os t orderData of
        Inl e \<Rightarrow> Inl e
      | Inr ord \<Rightarrow> save_new now os ord)"

subsection \<open>Request schemas (utils/validator.js)\<close>

text \<open>
  A schema is embedded as the list of the body's keys it rejects, in the order of the
  schema; the body passes when the list is empty. A Joi string is never empty unless
  \<open>allow('')\<close> says so; a typed body has no unknown keys.
\<close>

definition joi_string_required :: "string option \<Rightarrow> bool" where
  "joi_string_required x = (case x of None \<Rightarrow> False | Some s \<Rightarrow> s \<noteq> [])"

definition joi_string :: "string option \<Rightarrow> bool" where
  "joi_string x = (case x of None \<Rightarrow> True | Some s \<Rightarrow> s \<noteq> [])"

definition is_integer :: "rat \<Rightarrow> bool" where
  "is_integer q = (of_int \<lfloor>q\<rfloor> = q)"

definition joi_option :: "item_option \<Rightarrow> bool" where
  "joi_option opt = (opt_name opt \<noteq> [] \<and> opt_price opt \<noteq> None)"

definition joi_item :: "order_item \<Rightarrow> bool" where
  "joi_item item =
     (joi_string (productId item) \<and> joi_string (item_name item) \<and> joi_string (flavor item)
      \<and> is_integer (quantity item) \<and> 1 \<le> quantity item
      \<and> (case options item of None \<Rightarrow> True | Some opts \<Rightarrow> list_all joi_option opts))"

definition joi_customer :: "customer_info option \<Rightarrow> bool" where
  "joi_customer x =
     (case x of
        None \<Rightarrow> False
      | Some c \<Rightarrow> joi_string_required (cust_name c) \<and> joi_string_required (cust_phone c)
                  \<and> joi_string_required (cust_address c))"

definition joi_items :: "order_item list option \<Rightarrow> bool" where
  "joi_items x = (case x of None \<Rightarrow> False | Some its \<Rightarrow> list_all joi_item its \<and> 1 \<le> length its)"

definition joi_paymentMethod :: "string option \<Rightarrow> bool" where
  "joi_paymentMethod x = (case x of None \<Rightarrow> False | Some p \<Rightarrow> p \<in> set [''pix'', ''credit-card'', ''cash''])"

text \<open>
  \<open>changeFor: Joi.when('paymentMethod', {is: 'cash', then: Joi.number().optional(),
  otherwise: Joi.forbidden()})\<close>
\<close>

definition joi_changeFor :: "string option \<Rightarrow> rat option \<Rightarrow> bool" where
  "joi_changeFor pm cf = (if pm = Some ''cash'' then True else cf = None)"

definition validators_order :: "order_data \<Rightarrow> string list" where
  "validators_order b =
     (if joi_customer (body_customer b) then [] else [''customer''])
     @ (if joi_items (body_items b) then [] else [''items''])
     @ (if joi_paymentMethod (body_paymentMethod b) then [] else [''paymentMethod''])
     @ (if joi_changeFor (body_paymentMethod b) (body_changeFor b) then [] else [''changeFor''])"

definition validators_orderStatus :: "string option \<Rightarrow> string list" where
  "validators_orderStatus st =
     (case st of
        None \<Rightarrow> [''status'']
      | Some x \<Rightarrow>
          if x \<in> set [''pending'', ''confirmed'', ''preparing'', ''delivering'', ''completed'', ''cancelled'']
          then [] else [''status''])"

subsection \<open>Responses\<close>

datatype payload =
    OrderCreated string string rat
  | SchemaRejected "string list"
  | ValidationFailed service_error "string list"
  | ProcessingFailed
  | OrderNotFound
  | InvalidTransition string "string option"
  | StatusUpdated string
  | StatusUpdateFailed
  | InvalidRating
  | NotRatable
  | Rated rat
  | RatingFailed
  | EmptyNote
  | NoteAdded string
  | NoteFailed

datatype response = Response nat payload

fun code :: "response \<Rightarrow> nat" where
  "code (Response c p) = c"

fun body :: "response \<Rightarrow> payload" where
  "body (Response c p) = p"

text \<open>The middleware \<open>validate(schema)\<close>: 400 with the details, or the next handler.\<close>

definition validate :: "string list \<Rightarrow> 'w \<Rightarrow> (response \<times> 'w) \<Rightarrow> (response \<times> 'w)" where
  "validate violations w next = (if violations \<noteq> [] then (Response 400 (SchemaRejected violations), w) else next)"

subsection \<open>Notifications (botService)\<close>

datatype 'a lookup = Found 'a | Missing | Failure

record contact_info =
  contact_phone :: "string option"

record tenant =
  contact :: "contact_info option"

datatype message =
    NewOrderMessage string "string option" rat
  | StatusChangeMessage string string

datatype notify_call =
    NotifyNewOrder string nat
  | NotifyStatusChange string nat

text \<open>
  What the handlers read from their surroundings: the clock, the signed-in user's name,
  and the tenant collection as \<open>Tenant.findById\<close> answers it, once for the notifier and once
  for \<open>sendMessage\<close> (a document, \<open>null\<close>, or a rejected promise).
\<close>

record env =
  now_iso :: string
  now_ms :: int
  user_name :: string
  tenant_for_notify :: "string \<Rightarrow> tenant lookup"
  tenant_for_send :: "string \<Rightarrow> tenant lookup"

text \<open>
  The state the handlers change: the order collection, the trace of calls made to the two
  notifiers, and the messages handed to the (simulated) channel. The catalog is only read.
\<close>

record world =
  orders :: "order list"
  catalog :: "product list"
  calls :: "notify_call list"
  outbox :: "(string \<times> string option \<times> message) list"

text \<open>\<open>botService.sendMessage\<close>: \<open>false\<close> when the tenant is missing or the lookup throws.\<close>

definition sendMessage :: "env \<Rightarrow> world \<Rightarrow> string \<Rightarrow> string option \<Rightarrow> message \<Rightarrow> bool \<times> world" where
  "sendMessage e w t phone msg =
     (case tenant_for_send e t of
        Failure \<Rightarrow> (False, w)
      | Missing \<Rightarrow> (False, w)
      | Found tn \<Rightarrow> (True, w\<lparr> outbox := outbox w @ [(t, phone, msg)] \<rparr>))"

text \<open>The body of the \<open>try\<close> block of \<open>notifyNewOrder\<close>; \<open>None\<close> is a thrown exception.\<close>

definition notifyNewOrder_try :: "env \<Rightarrow> world \<Rightarrow> string \<Rightarrow> order \<Rightarrow> (bool \<times> world) option" where
  "notifyNewOrder_try e w t ord =
     (case tenant_for_notify e t of
        Failure \<Rightarrow> None
      | Missing \<Rightarrow> Some (False, w)
      | Found tn \<Rightarrow>
          (case contact tn of
             None \<Rightarrow> None
           | Some c \<Rightarrow>
               if \<not> truthy_str (contact_phone c) then Some (False, w)
               else Some (sendMessage e w t (contact_phone c)
                            (NewOrderMessage (orderNumber ord) (cust_name (customer ord)) (total ord)))))"

definition notifyNewOrder :: "env \<Rightarrow> world \<Rightarrow> string \<Rightarrow> order \<Rightarrow> bool \<times> world" where
  "notifyNewOrder e w t ord =
     (let w0 = w\<lparr> calls := calls w @ [NotifyNewOrder t (oid ord)] \<rparr>
      in case notifyNewOrder_try e w0 t ord of None \<Rightarrow> (False, w0) | Some r \<Rightarrow> r)"

definition notifyStatusChange_try :: "env \<Rightarrow> world \<Rightarrow> string \<Rightarrow> order \<Rightarrow> (bool \<times> world) option" where
  "notifyStatusChange_try e w t ord =
     (case tenant_for_notify e t of
        Failure \<Rightarrow> None
      | Missing \<Rightarrow> Some (False, w)
      | Found tn \<Rightarrow>
          Some (sendMessage e w t (cust_phone (customer ord))
                  (StatusChangeMessage (orderNumber ord) (status ord))))"

definition notifyStatusChange :: "env \<Rightarrow> world \<Rightarrow> string \<Rightarrow> order \<Rightarrow> bool \<times> world" where
  "notifyStatusChange e w t ord =
     (let w0 = w\<lparr> calls := calls w @ [NotifyStatusChange t (oid ord)] \<rparr>
      in case notifyStatusChange_try e w0 t ord of None \<Rightarrow> (False, w0) | Some r \<Rightarrow> r)"

subsection \<open>Order creation over HTTP (orderController.createOrder, POST /:tenantId)\<close>

definition orderController_createOrder :: "env \<Rightarrow> world \<Rightarrow> string \<Rightarrow> order_data \<Rightarrow> response \<times> world" where
  "orderController_createOrder e w t orderData =
     (case orderService_createOrder (catalog w) (now_iso e) (now_ms e) (orders w) t orderData of
        Inl err \<Rightarrow>
          (if error_type_is_validation err then (Response 400 (ValidationFailed err (error_details err)), w)
           else (Response 500 ProcessingFailed, w))
      | Inr (ord, os') \<Rightarrow>
          (case notifyNewOrder e (w\<lparr> orders := os' \<rparr>) t ord of
             (delivered, w') \<Rightarrow>
               (Response 201 (OrderCreated (orderNumber ord) (status ord) (total ord)), w')))"

definition route_createOrder :: "env \<Rightarrow> world \<Rightarrow> string \<Rightarrow> order_data \<Rightarrow> response \<times> world" where
  "route_createOrder e w t b = validate (validators_order b) w (orderController_createOrder e w t b)"

subsection \<open>Status transitions\<close>

definition validTransitions :: "(string \<times> string list) list" where
  "validTransitions =
     [(''pending'', [''confirmed'', ''cancelled'']),
      (''confirmed'', [''preparing'', ''cancelled'']),
      (''preparing'', [''delivering'', ''completed'', ''cancelled'']),
      (''delivering'', [''completed'', ''cancelled'']),
      (''completed'', []),
      (''cancelled'', [])]"

text \<open>\<open>Order.findOne({_id, tenantId})\<close> and \<open>Order.findOne({tenantId, orderNumber})\<close>\<close>

definition Order_findById :: "order list \<Rightarrow> nat \<Rightarrow> string \<Rightarrow> order option" where
  "Order_findById os i t = find (\<lambda>ord. oid ord = i \<and> tenantId ord = t) os"

definition Order_findByNumber :: "order list \<Rightarrow> string \<Rightarrow> string \<Rightarrow> order option" where
  "Order_findByNumber os t n = find (\<lambda>ord. tenantId ord = t \<and> orderNumber ord = n) os"

text \<open>\<open>order.save()\<close> of a loaded document: validated, then written over the stored one.\<close>

definition save_doc :: "order list \<Rightarrow> order \<Rightarrow> order list option" where
  "save_doc os ord =
     (if schema_valid ord then Some (map (\<lambda>x. if oid x = oid ord then ord else x) os) else None)"

text \<open>
  The controller's handler. A stored status that is no key of the table makes
  \<open>validTransitions[order.status]\<close> undefined, and the call of \<open>includes\<close> on it throws.
\<close>

definition orderController_updateOrderStatus ::
    "env \<Rightarrow> world \<Rightarrow> string \<Rightarrow> nat \<Rightarrow> string option \<Rightarrow> response \<times> world" where
  "orderController_updateOrderStatus e w t i st =
     (case Order_findById (orders w) i t of
        None \<Rightarrow> (Response 404 OrderNotFound, w)
      | Some ord \<Rightarrow>
          (case map_of validTransitions (status ord) of
             None \<Rightarrow> (Response 500 StatusUpdateFailed, w)
           | Some allowed \<Rightarrow>
               (case st of
                  None \<Rightarrow> (Response 400 (InvalidTransition (status ord) st), w)
                | Some s \<Rightarrow>
                    if s \<notin> set allowed then (Response 400 (InvalidTransition (status ord) st), w)
                    else
                      (case save_doc (orders w) (ord\<lparr> status := s \<rparr>) of
                         None \<Rightarrow> (Response 500 StatusUpdateFailed, w)
                       | Some os' \<Rightarrow>
                           (case notifyStatusChange e (w\<lparr> orders := os' \<rparr>) t (ord\<lparr> status := s \<rparr>) of
                              (delivered, w') \<Rightarrow> (Response 200 (StatusUpdated s), w'))))))"

definition route_updateOrderStatus ::
    "env \<Rightarrow> world \<Rightarrow> string \<Rightarrow> nat \<Rightarrow> string option \<Rightarrow> response \<times> world" where
  "route_updateOrderStatus e w t i st =
     validate (validators_orderStatus st) w (orderController_updateOrderStatus e w t i st)"

text \<open>The service's own copy of the transition (it notifies nobody).\<close>

datatype status_error =
    StatusOrderNotFound
  | TransitionRefused string string
  | StatusTableMiss
  | StatusSaveFailed

definition orderService_updateOrderStatus ::
    "order list \<Rightarrow> string \<Rightarrow> nat \<Rightarrow> string \<Rightarrow> status_error + (order \<times> order list)" where
  "orderService_updateOrderStatus os t i s =
     (case Order_findById os i t of
        None \<Rightarrow> Inl StatusOrderNotFound
      | Some ord \<Rightarrow>
          (case map_of validTransitions (status ord) of
             None \<Rightarrow> Inl StatusTableMiss
           | Some allowed \<Rightarrow>
               if s \<notin> set allowed then Inl (TransitionRefused (status ord) s)
               else
                 (case save_doc os (ord\<lparr> status := s \<rparr>) of
                    None \<Rightarrow> Inl StatusSaveFailed
                  | Some os' \<Rightarrow> Inr (ord\<lparr> status := s \<rparr>, os'))))"

text \<open>The transition table as the specification prints it.\<close>

definition allowed_transition :: "string \<Rightarrow> string \<Rightarrow> bool" where
  "allowed_transition cur tgt =
     ((cur = ''pending'' \<and> (tgt = ''confirmed'' \<or> tgt = ''cancelled''))
      \<or> (cur = ''confirmed'' \<and> (tgt = ''preparing'' \<or> tgt = ''cancelled''))
      \<or> (cur = ''preparing'' \<and> (tgt = ''delivering'' \<or> tgt = ''completed'' \<or> tgt = ''cancelled''))
      \<or> (cur = ''delivering'' \<and> (tgt = ''completed'' \<or> tgt = ''cancelled'')))"

subsection \<open>Rating and notes (orderController.rateOrder, orderController.addOrderNote)\<close>

text \<open>The label \<open>Avaliacao do cliente: \<close> with its two accented letters, in UTF-8.\<close>

definition rating_note_label :: string where
  "rating_note_label =
     ''Avalia'' @ [char_of (195::nat), char_of (167::nat), char_of (195::nat), char_of (163::nat)]
     @ ''o do cliente: ''"

definition append_line :: "string option \<Rightarrow> string \<Rightarrow> string" where
  "append_line old line = (if truthy_str old then the old @ [char_of (10::nat)] @ line else line)"

definition orderController_rateOrder ::
    "world \<Rightarrow> string \<Rightarrow> string \<Rightarrow> rat option \<Rightarrow> string option \<Rightarrow> response \<times> world" where
  "orderController_rateOrder w t num rt comment =
     (case rt of
        None \<Rightarrow> (Response 400 InvalidRating, w)
      | Some r \<Rightarrow>
          if r = 0 \<or> r < 1 \<or> r > 5 then (Response 400 InvalidRating, w)
          else
            (case Order_findByNumber (orders w) t num of
               None \<Rightarrow> (Response 404 OrderNotFound, w)
             | Some ord \<Rightarrow>
                 if status ord \<noteq> ''completed'' then (Response 400 NotRatable, w)
                 else
                   (let rated = ord\<lparr> rating := Some r \<rparr>;
                        doc = (if truthy_str comment
                               then rated\<lparr> order_notes :=
                                      Some (append_line (order_notes ord) (rating_note_label @ the comment)) \<rparr>
                               else rated)
                    in case save_doc (orders w) doc of
                         None \<Rightarrow> (Response 500 RatingFailed, w)
                       | Some os' \<Rightarrow> (Response 200 (Rated r), w\<lparr> orders := os' \<rparr>))))"

definition noteWithTimestamp :: "env \<Rightarrow> string \<Rightarrow> string" where
  "noteWithTimestamp e note = ''['' @ now_iso e @ ''] '' @ user_name e @ '': '' @ note"

definition orderController_addOrderNote ::
    "env \<Rightarrow> world \<Rightarrow> string \<Rightarrow> nat \<Rightarrow> string option \<Rightarrow> response \<times> world" where
  "orderController_addOrderNote e w t i note =
     (if \<not> truthy_str note then (Response 400 EmptyNote, w)
      else
        (case Order_findById (orders w) i t of
           None \<Rightarrow> (Response 404 OrderNotFound, w)
         | Some ord \<Rightarrow>
             (let doc = ord\<lparr> order_notes :=
                          Some (append_line (order_notes ord) (noteWithTimestamp e (the note))) \<rparr>
              in case save_doc (orders w) doc of
                   None \<Rightarrow> (Response 500 NoteFailed, w)
                 | Some os' \<Rightarrow>
                     (Response 200 (NoteAdded (append_line (order_notes ord) (noteWithTimestamp e (the note)))),
                      w\<lparr> orders := os' \<rparr>))))"

subsection \<open>Statistics (orderService.getOrderStatistics)\<close>

record statistics =
  period :: "int \<times> int"
  totalOrders :: nat
  byStatus :: "string \<Rightarrow> (nat \<times> rat) option"
  averageTicket :: rat
  totalSales :: rat

text \<open>The documents matched by \<open>{tenantId, createdAt: {$gte: startDate, $lte: endDate}}\<close>.\<close>

definition dateFilter :: "string \<Rightarrow> int \<Rightarrow> int \<Rightarrow> order list \<Rightarrow> order list" where
  "dateFilter t startDate endDate os =
     filter (\<lambda>ord. tenantId ord = t \<and> startDate \<le> createdAt ord \<and> createdAt ord \<le> endDate) os"

text \<open>\<open>$group\<close> by status with \<open>count: {$sum: 1}\<close> and \<open>total: {$sum: '$total'}\<close>: one row per
  status that occurs.\<close>

definition ordersByStatus :: "order list \<Rightarrow> (string \<times> nat \<times> rat) list" where
  "ordersByStatus xs =
     map (\<lambda>st. (st, length (filter (\<lambda>ord. status ord = st) xs),
                    sum_list (map total (filter (\<lambda>ord. status ord = st) xs))))
         (remdups (map status xs))"

text \<open>\<open>$group\<close> with \<open>_id: null\<close>: no row at all when no document matches.\<close>

definition group_avg :: "order list \<Rightarrow> rat list" where
  "group_avg xs = (if xs = [] then [] else [sum_list (map total xs) / of_nat (length xs)])"

definition group_sum :: "order list \<Rightarrow> rat list" where
  "group_sum xs = (if xs = [] then [] else [sum_list (map total xs)])"

definition getOrderStatistics :: "order list \<Rightarrow> string \<Rightarrow> int \<Rightarrow> int \<Rightarrow> statistics" where
  "getOrderStatistics os t startDate endDate =
     (let matched = dateFilter t startDate endDate os;
          statusStats = fold (\<lambda>row acc. acc(fst row \<mapsto> snd row)) (ordersByStatus matched) Map.empty
      in \<lparr> period = (startDate, endDate),
           totalOrders = length matched,
           byStatus = statusStats,
           averageTicket = (case group_avg matched of [] \<Rightarrow> 0 | a # _ \<Rightarrow> a),
           totalSales = (case group_sum matched of [] \<Rightarrow> 0 | a # _ \<Rightarrow> a) \<rparr>)"

subsection \<open>Requests that overlap\<close>

text \<open>
  A creation request suspends at its two store round trips: the read of the last order
  number (inside \<open>build_order\<close>) and the save. Between them another request may run. A
  schedule names, step by step, the request that advances.
\<close>

datatype request_state =
    Received order_data
  | Numbered order
  | Persisted order
  | Refused service_error

fun step_request :: "product list \<Rightarrow> string \<Rightarrow> int \<Rightarrow> string \<Rightarrow> order list \<Rightarrow> request_state \<Rightarrow> order list \<times> request_state" where
  "step_request cat today now t os (Received d) =
     (case build_order cat today os t d of Inl e \<Rightarrow> (os, Refused e) | Inr ord \<Rightarrow> (os, Numbered ord))"
| "step_request cat today now t os (Numbered ord) =
     (case save_new now os ord of Inl e \<Rightarrow> (os, Refused e) | Inr (doc, os') \<Rightarrow> (os', Persisted doc))"
| "step_request cat today now t os r = (os, r)"

fun run_schedule :: "product list \<Rightarrow> string \<Rightarrow> int \<Rightarrow> string \<Rightarrow> nat list \<Rightarrow> order list \<times> request_state list \<Rightarrow> order list \<times> request_state list" where
  "run_schedule cat today now t [] st = st"
| "run_schedule cat today now t (i # sched) (os, rs) =
     (if i < length rs
      then (case step_request cat today now t os (rs ! i) of
              (os', r') \<Rightarrow> run_schedule cat today now t sched (os', rs[i := r']))
      else run_schedule cat today now t sched (os, rs))"

subsection \<open>The formulas of the specification, and sample requests\<close>




definition scenarioA :: order_data where
  "scenarioA =
     \<lparr> body_customer = Some \<lparr> cust_name = Some ''Ana'', cust_phone = Some ''5511'', cust_address = Some ''Rua 1'' \<rparr>,
       body_items = Some [\<lparr> productId = None, item_name = Some ''Pizza'', flavor = None, quantity = 2,
                            unitPrice = 30, options = Some [\<lparr> opt_name = ''Borda'', opt_price = Some 5 \<rparr>] \<rparr>],
       body_paymentMethod = Some ''cash'', body_changeFor = None, body_deliveryFee = Some 5,
       body_notes = None \<rparr>"

definition sample_customer :: customer_info where
  "sample_customer = \<lparr> cust_name = Some ''Ana'', cust_phone = Some ''5511'', cust_address = Some ''Rua 1'' \<rparr>"

definition order75 :: order where
  "order75 =
     \<lparr> oid = 1, tenantId = ''t1'', orderNumber = ''ORD-20261103-001'', status = ''completed'',
       customer = sample_customer,
       items = [\<lparr> productId = None, item_name = Some ''Pizza'', flavor = None, quantity = 2,
                   unitPrice = 30, options = Some [\<lparr> opt_name = ''Borda'', opt_price = Some 5 \<rparr>] \<rparr>],
       paymentMethod = Some ''cash'', changeFor = None, deliveryFee = 5, subtotal = 70, total = 75,
       rating = None, order_notes = None, createdAt = 1000 \<rparr>"

definition order40 :: order where
  "order40 =
     \<lparr> oid = 2, tenantId = ''t1'', orderNumber = ''ORD-20261103-002'', status = ''cancelled'',
       customer = sample_customer,
       items = [\<lparr> productId = None, item_name = Some ''Suco'', flavor = None, quantity = 4,
                   unitPrice = 10, options = None \<rparr>],
       paymentMethod = Some ''pix'', changeFor = None, deliveryFee = 0, subtotal = 40, total = 40,
       rating = None, order_notes = None, createdAt = 2000 \<rparr>"

definition world0 :: world where
  "world0 = \<lparr> orders = [order75, order40], catalog = [], calls = [], outbox = [] \<rparr>"

definition silent_env :: env where
  "silent_env =
     \<lparr> now_iso = ''2026-11-03T10:00:00.000Z'', now_ms = 3000, user_name = ''admin'',
       tenant_for_notify = (\<lambda>t. Missing), tenant_for_send = (\<lambda>t. Failure) \<rparr>"

subsection \<open>Status transitions, notifications\<close>

definition empty_world :: world where
  "empty_world = \<lparr> orders = [], catalog = [], calls = [], outbox = [] \<rparr>"

definition orderA :: order where
  "orderA = order75\<lparr> status := ''pending'', createdAt := 3000 \<rparr>"

(*DEFS*)

section \<open>Verified properties\<close>

subsection \<open>Pricing\<close>











lemma sendMessage_keeps:
  assumes "sendMessage e w t ph m = (sent, w')"
  shows "orders w' = orders w \<and> calls w' = calls w \<and> catalog w' = catalog w"
  using assms by (auto simp: sendMessage_def split: lookup.splits)

lemma notifyStatusChange_effect:
  assumes "notifyStatusChange e w t ord = (sent, w')"
  shows "orders w' = orders w \<and> catalog w' = catalog w
         \<and> calls w' = calls w @ [NotifyStatusChange t (oid ord)]"
  using assms
  by (auto simp: notifyStatusChange_def notifyStatusChange_try_def Let_def
           split: lookup.splits option.splits dest: sendMessage_keeps)

lemma notifyNewOrder_effect:
  assumes "notifyNewOrder e w t ord = (sent, w')"
  shows "orders w' = orders w \<and> catalog w' = catalog w
         \<and> calls w' = calls w @ [NotifyNewOrder t (oid ord)]"
  using assms
  by (auto simp: notifyNewOrder_def notifyNewOrder_try_def Let_def
           split: lookup.splits option.splits if_splits dest: sendMessage_keeps)

lemma find_Some_props: "find P xs = Some x \<Longrightarrow> P x \<and> x \<in> set xs"
  by (induction xs) (auto split: if_splits)

lemma findById_props:
  "Order_findById os i t = Some ord \<Longrightarrow> oid ord = i \<and> tenantId ord = t \<and> ord \<in> set os"
  unfolding Order_findById_def by (drule find_Some_props) simp

lemma findById_after_write:
  assumes "Order_findById os i t = Some ord" and "oid doc = i" and "tenantId doc = t"
  shows "Order_findById (map (\<lambda>x. if oid x = i then doc else x) os) i t = Some doc"
  using assms unfolding Order_findById_def
  by (induction os) (auto split: if_splits)

lemma table_lookup:
  assumes "s \<in> set status_enum"
  shows "\<exists>allowed. map_of validTransitions s = Some allowed
           \<and> (\<forall>tgt. tgt \<in> set allowed \<longleftrightarrow> allowed_transition s tgt)"
  using assms by (auto simp: status_enum_def validTransitions_def allowed_transition_def)

lemma allowed_target_enum: "allowed_transition s tgt \<Longrightarrow> tgt \<in> set status_enum"
  by (auto simp: allowed_transition_def status_enum_def)

lemma schema_valid_status: "schema_valid ord \<Longrightarrow> status ord \<in> set status_enum"
  by (simp add: schema_valid_def)

lemma schema_valid_status_update:
  "schema_valid ord \<Longrightarrow> s \<in> set status_enum \<Longrightarrow> schema_valid (ord\<lparr> status := s \<rparr>)"
  by (simp add: schema_valid_def)


text \<open>
  Claim C3. For a stored, schema-valid order and a request to \<open>PATCH /:id/status\<close>: the
  update succeeds exactly when (current, target) is in the transition table; a failed
  request leaves the state as it was; a target status outside the table is answered with
  400 and an error carrying the current and the requested status; a target in the table
  is stored as the order's new status and exactly one call of the status notifier is
  added to the trace.
\<close>

theorem status_transition_table:
  assumes found: "Order_findById (orders w) i t = Some ord"
      and valid: "schema_valid ord"
  shows "(code (fst (route_updateOrderStatus e w t i st)) = 200
            \<longleftrightarrow> (\<exists>tgt. st = Some tgt \<and> allowed_transition (status ord) tgt))
         \<and> (code (fst (route_updateOrderStatus e w t i st)) \<noteq> 200
            \<longrightarrow> snd (route_updateOrderStatus e w t i st) = w)
         \<and> (\<forall>tgt. st = Some tgt \<and> tgt \<in> set status_enum \<and> \<not> allowed_transition (status ord) tgt
            \<longrightarrow> route_updateOrderStatus e w t i st
                  = (Response 400 (InvalidTransition (status ord) (Some tgt)), w))
         \<and> (\<forall>tgt. st = Some tgt \<and> allowed_transition (status ord) tgt
            \<longrightarrow> fst (route_updateOrderStatus e w t i st) = Response 200 (StatusUpdated tgt)
                \<and> Order_findById (orders (snd (route_updateOrderStatus e w t i st))) i t
                    = Some (ord\<lparr> status := tgt \<rparr>)
                \<and> calls (snd (route_updateOrderStatus e w t i st)) = calls w @ [NotifyStatusChange t i])"
proof -
  from valid have cur: "status ord \<in> set status_enum"
    by (rule schema_valid_status)
  from table_lookup [OF cur] obtain allowed where
    tab: "map_of validTransitions (status ord) = Some allowed"
    and mem: "\<And>tgt. tgt \<in> set allowed \<longleftrightarrow> allowed_transition (status ord) tgt"
    by blast
  from findById_props [OF found] have ids: "oid ord = i" "tenantId ord = t"
    by simp_all
  show ?thesis
  proof (cases st)
    case None
    then show ?thesis
      by (simp add: route_updateOrderStatus_def validate_def validators_orderStatus_def)
  next
    case (Some tgt)
    show ?thesis
    proof (cases "tgt \<in> set status_enum")
      case False
      then have "\<not> allowed_transition (status ord) tgt"
        using allowed_target_enum by blast
      with False Some show ?thesis
        by (simp add: route_updateOrderStatus_def validate_def validators_orderStatus_def status_enum_def)
    next
      case True
      then have pass: "validators_orderStatus (Some tgt) = []"
        by (simp add: validators_orderStatus_def status_enum_def)
      show ?thesis
      proof (cases "allowed_transition (status ord) tgt")
        case False
        then have "tgt \<notin> set allowed" by (simp add: mem)
        then have "route_updateOrderStatus e w t i st
                     = (Response 400 (InvalidTransition (status ord) (Some tgt)), w)"
          by (simp add: route_updateOrderStatus_def validate_def pass
                orderController_updateOrderStatus_def found tab Some)
        with False Some show ?thesis by simp
      next
        case ok: True
        then have inl: "tgt \<in> set allowed" by (simp add: mem)
        let ?doc = "ord\<lparr> status := tgt \<rparr>"
        let ?os = "map (\<lambda>x. if oid x = oid ?doc then ?doc else x) (orders w)"
        have sv: "save_doc (orders w) ?doc = Some ?os"
          using schema_valid_status_update [OF valid True] by (simp add: save_doc_def)
        obtain sent w' where n: "notifyStatusChange e (w\<lparr> orders := ?os \<rparr>) t ?doc = (sent, w')"
          by (cases "notifyStatusChange e (w\<lparr> orders := ?os \<rparr>) t ?doc")
        have r: "route_updateOrderStatus e w t i st = (Response 200 (StatusUpdated tgt), w')"
          using inl sv n
          by (simp add: route_updateOrderStatus_def validate_def pass
                orderController_updateOrderStatus_def found tab Some)
        from notifyStatusChange_effect [OF n]
        have eff: "orders w' = ?os" "calls w' = calls w @ [NotifyStatusChange t i]"
          by (simp_all add: ids)
        have "Order_findById ?os i t = Some ?doc"
          using findById_after_write [OF found, of ?doc] ids by simp
        with r eff ok Some show ?thesis by simp
      qed
    qed
  qed
qed


text \<open>
  Scenario B (completed to preparing is refused, nothing changes) and the first transition
  of a pending order.
\<close>

theorem status_transition_table_witness:
  "route_updateOrderStatus silent_env world0 ''t1'' 1 (Some ''preparing'')
     = (Response 400 (InvalidTransition ''completed'' (Some ''preparing'')), world0)
   \<and> fst (route_updateOrderStatus silent_env (world0\<lparr> orders := [order75\<lparr> status := ''pending'' \<rparr>] \<rparr>)
            ''t1'' 1 (Some ''confirmed''))
       = Response 200 (StatusUpdated ''confirmed'')
   \<and> calls (snd (route_updateOrderStatus silent_env (world0\<lparr> orders := [order75\<lparr> status := ''pending'' \<rparr>] \<rparr>)
            ''t1'' 1 (Some ''confirmed'')))
       = [NotifyStatusChange ''t1'' 1]"
proof -
  have f1: "Order_findById (orders world0) 1 ''t1'' = Some order75"
    by (simp add: Order_findById_def world0_def order75_def)
  have v1: "schema_valid order75"
    by (simp add: schema_valid_def order75_def sample_customer_def truthy_str_def
          status_enum_def payment_enum_def)
  have s1: "status order75 = ''completed''"
    by (simp add: order75_def)
  have "''preparing'' \<in> set status_enum \<and> \<not> allowed_transition ''completed'' ''preparing''"
    by (simp add: status_enum_def allowed_transition_def)
  with status_transition_table [OF f1 v1, of silent_env "Some ''preparing''"]
  have a: "route_updateOrderStatus silent_env world0 ''t1'' 1 (Some ''preparing'')
             = (Response 400 (InvalidTransition ''completed'' (Some ''preparing'')), world0)"
    by (simp add: s1)
  let ?w = "world0\<lparr> orders := [order75\<lparr> status := ''pending'' \<rparr>] \<rparr>"
  have f2: "Order_findById (orders ?w) 1 ''t1'' = Some (order75\<lparr> status := ''pending'' \<rparr>)"
    by (simp add: Order_findById_def world0_def order75_def)
  have v2: "schema_valid (order75\<lparr> status := ''pending'' \<rparr>)"
    using v1 by (simp add: schema_valid_def status_enum_def)
  have "allowed_transition (status (order75\<lparr> status := ''pending'' \<rparr>)) ''confirmed''"
    by (simp add: allowed_transition_def)
  with status_transition_table [OF f2 v2, of silent_env "Some ''confirmed''"]
  have b: "fst (route_updateOrderStatus silent_env ?w ''t1'' 1 (Some ''confirmed''))
             = Response 200 (StatusUpdated ''confirmed'')
           \<and> calls (snd (route_updateOrderStatus silent_env ?w ''t1'' 1 (Some ''confirmed'')))
             = calls ?w @ [NotifyStatusChange ''t1'' 1]"
    by simp
  have "calls ?w = []" by (simp add: world0_def)
  with a b show ?thesis by simp
qed

text \<open>The service's copy of the transition accepts the same pairs.\<close>

lemma service_transition_agrees:
  assumes found: "Order_findById os i t = Some ord" and valid: "schema_valid ord"
  shows "(\<exists>r. orderService_updateOrderStatus os t i tgt = Inr r) \<longleftrightarrow> allowed_transition (status ord) tgt"
proof -
  from table_lookup [OF schema_valid_status [OF valid]] obtain allowed where
    tab: "map_of validTransitions (status ord) = Some allowed"
    and mem: "\<And>x. x \<in> set allowed \<longleftrightarrow> allowed_transition (status ord) x"
    by blast
  show ?thesis
  proof (cases "allowed_transition (status ord) tgt")
    case True
    then have "schema_valid (ord\<lparr> status := tgt \<rparr>)"
      using schema_valid_status_update [OF valid] allowed_target_enum by blast
    with True show ?thesis
      by (simp add: orderService_updateOrderStatus_def found tab mem save_doc_def)
  next
    case False
    then show ?thesis
      by (simp add: orderService_updateOrderStatus_def found tab mem)
  qed
qed

text \<open>The document that a successful rating stores.\<close>

definition rated_doc :: "order \<Rightarrow> rat \<Rightarrow> string option \<Rightarrow> order" where
  "rated_doc ord r comment =
     (if truthy_str comment
      then ord\<lparr> rating := Some r,
                order_notes := Some (append_line (order_notes ord) (rating_note_label @ the comment)) \<rparr>
      else ord\<lparr> rating := Some r \<rparr>)"


subsection \<open>Rating\<close>

lemma findByNumber_props:
  "Order_findByNumber os t n = Some ord \<Longrightarrow> tenantId ord = t \<and> orderNumber ord = n \<and> ord \<in> set os"
  unfolding Order_findByNumber_def by (drule find_Some_props) simp

lemma findByNumber_after_write:
  assumes "Order_findByNumber os t n = Some ord" and "tenantId doc = t" and "orderNumber doc = n"
  shows "Order_findByNumber (map (\<lambda>x. if oid x = oid ord then doc else x) os) t n = Some doc"
  using assms unfolding Order_findByNumber_def
  by (induction os) (auto split: if_splits)

lemma schema_valid_rating_update:
  "schema_valid ord \<Longrightarrow> 1 \<le> r \<Longrightarrow> r \<le> 5 \<Longrightarrow> schema_valid (ord\<lparr> rating := Some r \<rparr>)"
  by (simp add: schema_valid_def)

lemma schema_valid_notes_update:
  "schema_valid ord \<Longrightarrow> schema_valid (ord\<lparr> order_notes := x \<rparr>)"
  by (simp add: schema_valid_def)

lemma rateOrder_accepted:
  assumes found: "Order_findByNumber (orders w) t num = Some ord"
      and valid: "schema_valid ord"
      and range: "1 \<le> r" "r \<le> 5"
      and completed: "status ord = ''completed''"
  shows "orderController_rateOrder w t num (Some r) comment
           = (Response 200 (Rated r),
              w\<lparr> orders := map (\<lambda>x. if oid x = oid ord then rated_doc ord r comment else x) (orders w) \<rparr>)"
proof -
  have "schema_valid (rated_doc ord r comment)"
    using schema_valid_rating_update [OF valid range]
    by (simp add: rated_doc_def schema_valid_def)
  moreover have "oid (rated_doc ord r comment) = oid ord"
    by (simp add: rated_doc_def)
  moreover from range have "\<not> (r = 0 \<or> r < 1 \<or> r > 5)" by simp
  ultimately show ?thesis
    using found completed
    by (simp add: orderController_rateOrder_def Let_def save_doc_def rated_doc_def)
qed

lemma rateOrder_refused:
  assumes found: "Order_findByNumber (orders w) t num = Some ord"
      and bad: "\<not> ((\<exists>r. rt = Some r \<and> 1 \<le> r \<and> r \<le> 5) \<and> status ord = ''completed'')"
  shows "code (fst (orderController_rateOrder w t num rt comment)) = 400
         \<and> snd (orderController_rateOrder w t num rt comment) = w"
  using found bad
  by (cases rt) (auto simp: orderController_rateOrder_def)

text \<open>
  Claim C7, as the code has it. For a stored, schema-valid order, rating succeeds exactly
  when the rating is a number from 1 to 5 (whole or not) and the order is completed; every
  other request is answered with 400 and changes nothing; a success stores the rating,
  whatever rating the order carried before.
\<close>

theorem rateOrder_number_in_range:
  assumes found: "Order_findByNumber (orders w) t num = Some ord"
      and valid: "schema_valid ord"
  shows "(code (fst (orderController_rateOrder w t num rt comment)) = 200
            \<longleftrightarrow> (\<exists>r. rt = Some r \<and> 1 \<le> r \<and> r \<le> 5) \<and> status ord = ''completed'')
         \<and> (code (fst (orderController_rateOrder w t num rt comment)) \<noteq> 200
            \<longrightarrow> code (fst (orderController_rateOrder w t num rt comment)) = 400
                \<and> snd (orderController_rateOrder w t num rt comment) = w)
         \<and> (\<forall>r. rt = Some r \<and> 1 \<le> r \<and> r \<le> 5 \<and> status ord = ''completed''
            \<longrightarrow> fst (orderController_rateOrder w t num rt comment) = Response 200 (Rated r)
                \<and> Order_findByNumber (orders (snd (orderController_rateOrder w t num rt comment))) t num
                    = Some (rated_doc ord r comment)
                \<and> rating (rated_doc ord r comment) = Some r)"
proof (cases "(\<exists>r. rt = Some r \<and> 1 \<le> r \<and> r \<le> 5) \<and> status ord = ''completed''")
  case True
  then obtain r where r: "rt = Some r" "1 \<le> r" "r \<le> 5" and completed: "status ord = ''completed''"
    by blast
  from findByNumber_props [OF found] have ids: "tenantId ord = t" "orderNumber ord = num"
    by simp_all
  have same: "tenantId (rated_doc ord r comment) = t" "orderNumber (rated_doc ord r comment) = num"
    "rating (rated_doc ord r comment) = Some r"
    using ids by (simp_all add: rated_doc_def)
  note acc = rateOrder_accepted [OF found valid r(2,3) completed, of comment]
  have "Order_findByNumber (orders (snd (orderController_rateOrder w t num (Some r) comment))) t num
          = Some (rated_doc ord r comment)"
    using findByNumber_after_write [OF found same(1,2)] by (simp add: acc)
  with acc r completed same show ?thesis by simp
next
  case False
  from rateOrder_refused [OF found False, of comment] False show ?thesis
    by auto
qed

text \<open>Rating twice overwrites; 6 is out of range; a cancelled order is not rated.\<close>

theorem rateOrder_number_in_range_witness:
  "fst (orderController_rateOrder world0 ''t1'' ''ORD-20261103-001'' (Some 4) None) = Response 200 (Rated 4)
   \<and> fst (orderController_rateOrder
            (snd (orderController_rateOrder world0 ''t1'' ''ORD-20261103-001'' (Some 4) None))
            ''t1'' ''ORD-20261103-001'' (Some 2) None) = Response 200 (Rated 2)
   \<and> orderController_rateOrder world0 ''t1'' ''ORD-20261103-001'' (Some 6) None
       = (Response 400 InvalidRating, world0)
   \<and> code (fst (orderController_rateOrder world0 ''t1'' ''ORD-20261103-002'' (Some 4) None)) = 400"
proof -
  have f1: "Order_findByNumber (orders world0) ''t1'' ''ORD-20261103-001'' = Some order75"
    by (simp add: Order_findByNumber_def world0_def order75_def)
  have v1: "schema_valid order75"
    by (simp add: schema_valid_def order75_def sample_customer_def truthy_str_def
          status_enum_def payment_enum_def)
  have s1: "status order75 = ''completed''"
    by (simp add: order75_def)
  let ?w1 = "snd (orderController_rateOrder world0 ''t1'' ''ORD-20261103-001'' (Some 4) None)"
  from rateOrder_number_in_range [OF f1 v1, of "Some 4" None] s1
  have a: "fst (orderController_rateOrder world0 ''t1'' ''ORD-20261103-001'' (Some 4) None)
             = Response 200 (Rated 4)"
    and f2: "Order_findByNumber (orders ?w1) ''t1'' ''ORD-20261103-001'' = Some (rated_doc order75 4 None)"
    by simp_all
  have v2: "schema_valid (rated_doc order75 4 None)"
    using v1 by (simp add: rated_doc_def truthy_str_def schema_valid_def)
  have s2: "status (rated_doc order75 4 None) = ''completed''"
    by (simp add: rated_doc_def truthy_str_def s1)
  from rateOrder_number_in_range [OF f2 v2, of "Some 2" None] s2
  have b: "fst (orderController_rateOrder ?w1 ''t1'' ''ORD-20261103-001'' (Some 2) None)
             = Response 200 (Rated 2)"
    by simp
  have c: "orderController_rateOrder world0 ''t1'' ''ORD-20261103-001'' (Some 6) None
             = (Response 400 InvalidRating, world0)"
    by (simp add: orderController_rateOrder_def)
  have f3: "Order_findByNumber (orders world0) ''t1'' ''ORD-20261103-002'' = Some order40"
    by (simp add: Order_findByNumber_def world0_def order75_def order40_def)
  have v3: "schema_valid order40"
    by (simp add: schema_valid_def order40_def sample_customer_def truthy_str_def
          status_enum_def payment_enum_def)
  have s3: "status order40 \<noteq> ''completed''"
    by (simp add: order40_def)
  from rateOrder_number_in_range [OF f3 v3, of "Some 4" None] s3
  have d: "code (fst (orderController_rateOrder world0 ''t1'' ''ORD-20261103-002'' (Some 4) None)) = 400"
    by simp
  from a b c d show ?thesis by simp
qed

text \<open>The rating 4.5 is accepted on a completed order although it is no integer.\<close>

theorem rateOrder_fraction_counterexample:
  "fst (orderController_rateOrder world0 ''t1'' ''ORD-20261103-001'' (Some (9 / 2)) None)
     = Response 200 (Rated (9 / 2))
   \<and> \<not> is_integer (9 / 2)
   \<and> status order75 = ''completed''
   \<and> Order_findByNumber (orders world0) ''t1'' ''ORD-20261103-001'' = Some order75"
proof -
  have "\<lfloor>9 / 2 :: rat\<rfloor> = 4" by (simp add: floor_eq_iff)
  then have "\<not> is_integer (9 / 2)"
    by (simp add: is_integer_def)
  moreover have "fst (orderController_rateOrder world0 ''t1'' ''ORD-20261103-001'' (Some (9 / 2)) None)
     = Response 200 (Rated (9 / 2))"
    by (simp add: orderController_rateOrder_def Order_findByNumber_def world0_def order75_def
          save_doc_def schema_valid_def sample_customer_def truthy_str_def status_enum_def
          payment_enum_def Let_def)
  ultimately show ?thesis
    by (simp add: Order_findByNumber_def world0_def order75_def)
qed

text \<open>The line separator, and the document that a successful note append stores.\<close>

definition line_feed :: string where
  "line_feed = [char_of (10::nat)]"

definition noted_doc :: "order \<Rightarrow> string \<Rightarrow> order" where
  "noted_doc ord entry = ord\<lparr> order_notes := Some (append_line (order_notes ord) entry) \<rparr>"

subsection \<open>Notes\<close>

lemma addOrderNote_empty:
  "\<not> truthy_str note \<Longrightarrow> orderController_addOrderNote e w t i note = (Response 400 EmptyNote, w)"
  by (simp add: orderController_addOrderNote_def)

lemma addOrderNote_accepted:
  assumes found: "Order_findById (orders w) i t = Some ord"
      and valid: "schema_valid ord"
      and nonempty: "n \<noteq> []"
  shows "orderController_addOrderNote e w t i (Some n)
           = (Response 200 (NoteAdded (append_line (order_notes ord) (noteWithTimestamp e n))),
              w\<lparr> orders := map (\<lambda>x. if oid x = i then noted_doc ord (noteWithTimestamp e n) else x)
                               (orders w) \<rparr>)"
proof -
  from findById_props [OF found] have "oid ord = i" by simp
  moreover have "schema_valid (noted_doc ord (noteWithTimestamp e n))"
    unfolding noted_doc_def using valid by (rule schema_valid_notes_update)
  ultimately show ?thesis
    using found nonempty
    by (simp add: orderController_addOrderNote_def truthy_str_def Let_def save_doc_def noted_doc_def)
qed

lemma addOrderNote_found_after:
  assumes found: "Order_findById (orders w) i t = Some ord"
      and valid: "schema_valid ord"
      and nonempty: "n \<noteq> []"
  shows "Order_findById (orders (snd (orderController_addOrderNote e w t i (Some n)))) i t
           = Some (noted_doc ord (noteWithTimestamp e n))"
proof -
  from findById_props [OF found] have "oid (noted_doc ord (noteWithTimestamp e n)) = i"
    "tenantId (noted_doc ord (noteWithTimestamp e n)) = t"
    by (simp_all add: noted_doc_def)
  from findById_after_write [OF found this] show ?thesis
    by (simp add: addOrderNote_accepted [OF found valid nonempty])
qed

lemma append_line_twice:
  "entry1 \<noteq> [] \<Longrightarrow> append_line (Some (append_line old entry1)) entry2
     = append_line old entry1 @ line_feed @ entry2"
  by (simp add: append_line_def truthy_str_def line_feed_def)

lemma noteWithTimestamp_nonempty: "noteWithTimestamp e n \<noteq> []"
  by (simp add: noteWithTimestamp_def)

text \<open>
  Claim C8. An empty (or missing) note is answered with 400 and changes nothing. A
  non-empty note on a stored, schema-valid order is accepted, and the stored order is the
  old one with the entry \<open>[timestamp] user: note\<close> appended to its notes, every other field as
  before. After a second non-empty note the notes text is the text after the first append,
  a line feed, and the second entry: two timestamped entries in append order.
\<close>

theorem addOrderNote_appends:
  assumes found: "Order_findById (orders w) i t = Some ord"
      and valid: "schema_valid ord"
  shows "(\<not> truthy_str note \<longrightarrow> orderController_addOrderNote e w t i note = (Response 400 EmptyNote, w))
         \<and> (\<forall>n. n \<noteq> [] \<longrightarrow>
              code (fst (orderController_addOrderNote e w t i (Some n))) = 200
              \<and> Order_findById (orders (snd (orderController_addOrderNote e w t i (Some n)))) i t
                  = Some (ord\<lparr> order_notes := Some (append_line (order_notes ord) (noteWithTimestamp e n)) \<rparr>)
              \<and> (\<forall>n2 e2. n2 \<noteq> [] \<longrightarrow>
                    Order_findById
                      (orders (snd (orderController_addOrderNote e2
                                      (snd (orderController_addOrderNote e w t i (Some n))) t i (Some n2)))) i t
                    = Some (ord\<lparr> order_notes :=
                               Some (append_line (order_notes ord) (noteWithTimestamp e n)
                                     @ line_feed @ noteWithTimestamp e2 n2) \<rparr>)))"
proof (intro conjI allI impI)
  assume "\<not> truthy_str note"
  then show "orderController_addOrderNote e w t i note = (Response 400 EmptyNote, w)"
    by (rule addOrderNote_empty)
next
  fix n :: string assume n: "n \<noteq> []"
  show "code (fst (orderController_addOrderNote e w t i (Some n))) = 200"
    by (simp add: addOrderNote_accepted [OF found valid n])
  show first: "Order_findById (orders (snd (orderController_addOrderNote e w t i (Some n)))) i t
          = Some (ord\<lparr> order_notes := Some (append_line (order_notes ord) (noteWithTimestamp e n)) \<rparr>)"
    using addOrderNote_found_after [OF found valid n, of e] by (simp add: noted_doc_def)
  fix n2 :: string and e2 :: env assume n2: "n2 \<noteq> []"
  let ?w1 = "snd (orderController_addOrderNote e w t i (Some n))"
  let ?d1 = "noted_doc ord (noteWithTimestamp e n)"
  have f1: "Order_findById (orders ?w1) i t = Some ?d1"
    by (rule addOrderNote_found_after [OF found valid n])
  have v1: "schema_valid ?d1"
    unfolding noted_doc_def using valid by (rule schema_valid_notes_update)
  from addOrderNote_found_after [OF f1 v1 n2, of e2]
  show "Order_findById (orders (snd (orderController_addOrderNote e2 ?w1 t i (Some n2)))) i t
          = Some (ord\<lparr> order_notes :=
                     Some (append_line (order_notes ord) (noteWithTimestamp e n)
                           @ line_feed @ noteWithTimestamp e2 n2) \<rparr>)"
    by (simp add: noted_doc_def append_line_twice [OF noteWithTimestamp_nonempty])
qed

text \<open>Two notes at 10:00 and 10:05 on an order without notes; the empty note refused.\<close>

theorem addOrderNote_appends_witness:
  "orderController_addOrderNote silent_env world0 ''t1'' 1 (Some '''') = (Response 400 EmptyNote, world0)
   \<and> map_option order_notes
        (Order_findById
           (orders (snd (orderController_addOrderNote (silent_env\<lparr> now_iso := ''2026-11-03T10:05:00.000Z'' \<rparr>)
                           (snd (orderController_addOrderNote silent_env world0 ''t1'' 1 (Some ''sem cebola'')))
                           ''t1'' 1 (Some ''troco para 100''))))
           1 ''t1'')
       = Some (Some (''[2026-11-03T10:00:00.000Z] admin: sem cebola'' @ line_feed
                     @ ''[2026-11-03T10:05:00.000Z] admin: troco para 100''))"
proof -
  have f1: "Order_findById (orders world0) 1 ''t1'' = Some order75"
    by (simp add: Order_findById_def world0_def order75_def)
  have v1: "schema_valid order75"
    by (simp add: schema_valid_def order75_def sample_customer_def truthy_str_def
          status_enum_def payment_enum_def)
  note appended = addOrderNote_appends [OF f1 v1]
  have "\<not> truthy_str (Some '''')" by (simp add: truthy_str_def)
  with appended [of "Some ''''" silent_env]
  have a: "orderController_addOrderNote silent_env world0 ''t1'' 1 (Some '''') = (Response 400 EmptyNote, world0)"
    by blast
  have "''sem cebola'' \<noteq> []" "''troco para 100'' \<noteq> []" by simp_all
  with appended [of None silent_env]
  have "Order_findById
           (orders (snd (orderController_addOrderNote (silent_env\<lparr> now_iso := ''2026-11-03T10:05:00.000Z'' \<rparr>)
                           (snd (orderController_addOrderNote silent_env world0 ''t1'' 1 (Some ''sem cebola'')))
                           ''t1'' 1 (Some ''troco para 100''))))
           1 ''t1''
        = Some (order75\<lparr> order_notes :=
                   Some (append_line (order_notes order75) (noteWithTimestamp silent_env ''sem cebola'')
                         @ line_feed
                         @ noteWithTimestamp (silent_env\<lparr> now_iso := ''2026-11-03T10:05:00.000Z'' \<rparr>)
                             ''troco para 100'') \<rparr>)"
    by blast
  then show ?thesis
    using a by (simp add: append_line_def truthy_str_def order75_def noteWithTimestamp_def silent_env_def)
qed

text \<open>
  The ways a notification fails: the tenant lookup throws or finds nothing, the tenant has
  no contact phone (new-order notice only), or \<open>sendMessage\<close> fails.
\<close>

definition send_fails :: "env \<Rightarrow> string \<Rightarrow> bool" where
  "send_fails e t = (case tenant_for_send e t of Found tn \<Rightarrow> False | Missing \<Rightarrow> True | Failure \<Rightarrow> True)"

definition newOrder_notice_fails :: "env \<Rightarrow> string \<Rightarrow> bool" where
  "newOrder_notice_fails e t =
     (case tenant_for_notify e t of
        Missing \<Rightarrow> True
      | Failure \<Rightarrow> True
      | Found tn \<Rightarrow>
          (case contact tn of
             None \<Rightarrow> True
           | Some c \<Rightarrow> \<not> truthy_str (contact_phone c) \<or> send_fails e t))"

definition statusChange_notice_fails :: "env \<Rightarrow> string \<Rightarrow> bool" where
  "statusChange_notice_fails e t =
     (case tenant_for_notify e t of
        Missing \<Rightarrow> True
      | Failure \<Rightarrow> True
      | Found tn \<Rightarrow> send_fails e t)"


subsection \<open>Notification failures\<close>

text \<open>Whatever the notifier meets, a persisted creation or transition is answered with success.\<close>

lemma createOrder_controller_persisted:
  assumes "orderService_createOrder (catalog w) (now_iso e) (now_ms e) (orders w) t b = Inr (ord, os')"
  shows "fst (orderController_createOrder e w t b)
           = Response 201 (OrderCreated (orderNumber ord) (status ord) (total ord))
         \<and> orders (snd (orderController_createOrder e w t b)) = os'
         \<and> calls (snd (orderController_createOrder e w t b)) = calls w @ [NotifyNewOrder t (oid ord)]"
proof -
  obtain sent w' where n: "notifyNewOrder e (w\<lparr> orders := os' \<rparr>) t ord = (sent, w')"
    by (cases "notifyNewOrder e (w\<lparr> orders := os' \<rparr>) t ord")
  from notifyNewOrder_effect [OF n] assms n show ?thesis
    by (simp add: orderController_createOrder_def)
qed

lemma updateOrderStatus_controller_persisted:
  assumes found: "Order_findById (orders w) i t = Some ord"
      and tab: "map_of validTransitions (status ord) = Some allowed"
      and tgt: "tgt \<in> set allowed"
      and saved: "save_doc (orders w) (ord\<lparr> status := tgt \<rparr>) = Some os'"
  shows "fst (orderController_updateOrderStatus e w t i (Some tgt)) = Response 200 (StatusUpdated tgt)
         \<and> orders (snd (orderController_updateOrderStatus e w t i (Some tgt))) = os'"
proof -
  obtain sent w' where n: "notifyStatusChange e (w\<lparr> orders := os' \<rparr>) t (ord\<lparr> status := tgt \<rparr>) = (sent, w')"
    by (cases "notifyStatusChange e (w\<lparr> orders := os' \<rparr>) t (ord\<lparr> status := tgt \<rparr>)")
  from notifyStatusChange_effect [OF n] assms n show ?thesis
    by (simp add: orderController_updateOrderStatus_def)
qed

lemma notifyNewOrder_failures:
  "(tenant_for_notify e t = Missing \<or> tenant_for_notify e t = Failure
      \<or> (\<exists>tn. tenant_for_notify e t = Found tn
            \<and> (contact tn = None \<or> (\<exists>c. contact tn = Some c \<and> \<not> truthy_str (contact_phone c))))
      \<or> tenant_for_send e t = Missing \<or> tenant_for_send e t = Failure)
   \<Longrightarrow> fst (notifyNewOrder e w t ord) = False \<and> outbox (snd (notifyNewOrder e w t ord)) = outbox w"
  by (auto simp: notifyNewOrder_def notifyNewOrder_try_def sendMessage_def Let_def
           split: lookup.splits option.splits)

lemma notifyStatusChange_failures:
  "(tenant_for_notify e t = Missing \<or> tenant_for_notify e t = Failure
      \<or> tenant_for_send e t = Missing \<or> tenant_for_send e t = Failure)
   \<Longrightarrow> fst (notifyStatusChange e w t ord) = False \<and> outbox (snd (notifyStatusChange e w t ord)) = outbox w"
  by (auto simp: notifyStatusChange_def notifyStatusChange_try_def sendMessage_def Let_def
           split: lookup.splits option.splits)


lemma notifyNewOrder_failed:
  assumes "newOrder_notice_fails e t"
  shows "notifyNewOrder e w t ord = (False, w\<lparr> calls := calls w @ [NotifyNewOrder t (oid ord)] \<rparr>)"
  using assms
  by (auto simp: newOrder_notice_fails_def send_fails_def notifyNewOrder_def notifyNewOrder_try_def
        sendMessage_def Let_def split: lookup.splits option.splits)

lemma notifyStatusChange_failed:
  assumes "statusChange_notice_fails e t"
  shows "notifyStatusChange e w t ord = (False, w\<lparr> calls := calls w @ [NotifyStatusChange t (oid ord)] \<rparr>)"
  using assms
  by (auto simp: statusChange_notice_fails_def send_fails_def notifyStatusChange_def
        notifyStatusChange_try_def sendMessage_def Let_def split: lookup.splits option.splits)

text \<open>
  Claim C9. Once the service has persisted a new order, or a transition has been saved, a
  failing notification (tenant lookup throwing or empty, no contact phone, failing send)
  only makes the notifier return false: the handler still answers 201 resp. 200, and the
  resulting state is the one with the order stored resp. the new status saved, plus the
  record of the one notifier call.
\<close>

theorem notification_failure_swallowed:
  "(orderService_createOrder (catalog w) (now_iso e) (now_ms e) (orders w) t b = Inr (ord, os')
      \<and> newOrder_notice_fails e t
    \<longrightarrow> fst (notifyNewOrder e (w\<lparr> orders := os' \<rparr>) t ord) = False
        \<and> orderController_createOrder e w t b
            = (Response 201 (OrderCreated (orderNumber ord) (status ord) (total ord)),
               w\<lparr> orders := os', calls := calls w @ [NotifyNewOrder t (oid ord)] \<rparr>))
   \<and> (Order_findById (orders w) i t = Some old
      \<and> map_of validTransitions (status old) = Some allowed \<and> tgt \<in> set allowed
      \<and> save_doc (orders w) (old\<lparr> status := tgt \<rparr>) = Some os2
      \<and> statusChange_notice_fails e t
    \<longrightarrow> fst (notifyStatusChange e (w\<lparr> orders := os2 \<rparr>) t (old\<lparr> status := tgt \<rparr>)) = False
        \<and> orderController_updateOrderStatus e w t i (Some tgt)
            = (Response 200 (StatusUpdated tgt),
               w\<lparr> orders := os2, calls := calls w @ [NotifyStatusChange t (oid old)] \<rparr>))"
proof (intro conjI impI)
  assume a: "orderService_createOrder (catalog w) (now_iso e) (now_ms e) (orders w) t b = Inr (ord, os')
      \<and> newOrder_notice_fails e t"
  then have n: "notifyNewOrder e (w\<lparr> orders := os' \<rparr>) t ord
                  = (False, w\<lparr> orders := os', calls := calls w @ [NotifyNewOrder t (oid ord)] \<rparr>)"
    by (simp add: notifyNewOrder_failed)
  then show "fst (notifyNewOrder e (w\<lparr> orders := os' \<rparr>) t ord) = False"
    by simp
  from a n show "orderController_createOrder e w t b
            = (Response 201 (OrderCreated (orderNumber ord) (status ord) (total ord)),
               w\<lparr> orders := os', calls := calls w @ [NotifyNewOrder t (oid ord)] \<rparr>)"
    by (simp add: orderController_createOrder_def)
next
  assume a: "Order_findById (orders w) i t = Some old
      \<and> map_of validTransitions (status old) = Some allowed \<and> tgt \<in> set allowed
      \<and> save_doc (orders w) (old\<lparr> status := tgt \<rparr>) = Some os2
      \<and> statusChange_notice_fails e t"
  then have n: "notifyStatusChange e (w\<lparr> orders := os2 \<rparr>) t (old\<lparr> status := tgt \<rparr>)
                  = (False, w\<lparr> orders := os2, calls := calls w @ [NotifyStatusChange t (oid old)] \<rparr>)"
    by (simp add: notifyStatusChange_failed)
  then show "fst (notifyStatusChange e (w\<lparr> orders := os2 \<rparr>) t (old\<lparr> status := tgt \<rparr>)) = False"
    by simp
  from a n show "orderController_updateOrderStatus e w t i (Some tgt)
            = (Response 200 (StatusUpdated tgt),
               w\<lparr> orders := os2, calls := calls w @ [NotifyStatusChange t (oid old)] \<rparr>)"
    by (simp add: orderController_updateOrderStatus_def)
qed


lemma scenarioA_created:
  "orderService_createOrder [] ''2026-11-03T10:00:00.000Z'' 3000 [] ''t1'' scenarioA = Inr (orderA, [orderA])"
  by code_simp

text \<open>With a tenant collection that finds nobody, creation and confirmation both succeed.\<close>

theorem notification_failure_swallowed_witness:
  "newOrder_notice_fails silent_env ''t1'' \<and> statusChange_notice_fails silent_env ''t1''
   \<and> orderController_createOrder silent_env empty_world ''t1'' scenarioA
       = (Response 201 (OrderCreated ''ORD-20261103-001'' ''pending'' 75),
          empty_world\<lparr> orders := [orderA], calls := [NotifyNewOrder ''t1'' 1] \<rparr>)
   \<and> orderController_updateOrderStatus silent_env (empty_world\<lparr> orders := [orderA] \<rparr>) ''t1'' 1 (Some ''confirmed'')
       = (Response 200 (StatusUpdated ''confirmed''),
          empty_world\<lparr> orders := [orderA\<lparr> status := ''confirmed'' \<rparr>], calls := [NotifyStatusChange ''t1'' 1] \<rparr>)"
proof -
  have f1: "newOrder_notice_fails silent_env ''t1''"
    by (simp add: newOrder_notice_fails_def silent_env_def)
  have f2: "statusChange_notice_fails silent_env ''t1''"
    by (simp add: statusChange_notice_fails_def silent_env_def)
  have c: "orderService_createOrder (catalog empty_world) (now_iso silent_env) (now_ms silent_env)
             (orders empty_world) ''t1'' scenarioA = Inr (orderA, [orderA])"
    using scenarioA_created by (simp add: empty_world_def silent_env_def)
  let ?w = "empty_world\<lparr> orders := [orderA] \<rparr>"
  have u: "Order_findById (orders ?w) 1 ''t1'' = Some orderA
           \<and> map_of validTransitions (status orderA) = Some [''confirmed'', ''cancelled'']
           \<and> ''confirmed'' \<in> set [''confirmed'', ''cancelled'']
           \<and> save_doc (orders ?w) (orderA\<lparr> status := ''confirmed'' \<rparr>) = Some [orderA\<lparr> status := ''confirmed'' \<rparr>]"
    by (simp add: Order_findById_def orderA_def order75_def validTransitions_def save_doc_def
          schema_valid_def sample_customer_def truthy_str_def status_enum_def payment_enum_def)
  have fields: "orderNumber orderA = ''ORD-20261103-001''" "status orderA = ''pending''" "total orderA = 75"
    "oid orderA = 1" "calls empty_world = []"
    by (simp_all add: orderA_def order75_def empty_world_def)
  from notification_failure_swallowed
         [of empty_world silent_env "''t1''" scenarioA orderA "[orderA]" 0 orderA "[]" "[]" "[]"]
       c f1
  have a: "orderController_createOrder silent_env empty_world ''t1'' scenarioA
       = (Response 201 (OrderCreated ''ORD-20261103-001'' ''pending'' 75),
          empty_world\<lparr> orders := [orderA], calls := [NotifyNewOrder ''t1'' 1] \<rparr>)"
    by (simp add: fields)
  from notification_failure_swallowed
         [of ?w silent_env "''t1''" scenarioA orderA "[]" 1 orderA "[''confirmed'', ''cancelled'']"
             "''confirmed''" "[orderA\<lparr> status := ''confirmed'' \<rparr>]"]
       u f2
  have b: "orderController_updateOrderStatus silent_env ?w ''t1'' 1 (Some ''confirmed'')
       = (Response 200 (StatusUpdated ''confirmed''),
          empty_world\<lparr> orders := [orderA\<lparr> status := ''confirmed'' \<rparr>], calls := [NotifyStatusChange ''t1'' 1] \<rparr>)"
    by (simp add: fields)
  from f1 f2 a b show ?thesis by simp
qed

text \<open>Scenario C: the cash request without change, and a pix request that names a change.\<close>

definition pix_with_change :: order_data where
  "pix_with_change = scenarioA\<lparr> body_paymentMethod := Some ''pix'', body_changeFor := Some 10 \<rparr>"

subsection \<open>Payment method and change\<close>

lemma process_items_passes:
  "\<forall>item\<in>set its. check_item cat t item = None \<Longrightarrow>
   process_items cat t its acc = Inr (acc + sum_list (map item_amount its))"
  by (induction its arbitrary: acc) (simp_all add: add.assoc)

lemma generateOrderNumber_nonempty: "generateOrderNumber os t today \<noteq> []"
  by (simp add: generateOrderNumber_def Let_def order_prefix_def)

lemma joi_items_props:
  assumes "joi_items x"
  shows "\<exists>its. x = Some its \<and> its \<noteq> [] \<and> list_all (\<lambda>it. 1 \<le> quantity it) its \<and> list_all joi_item its"
  using assms
  by (cases x) (auto simp: joi_items_def joi_item_def list_all_iff)

lemma joi_customer_props:
  assumes "joi_customer x"
  shows "\<exists>c. x = Some c \<and> truthy_str (cust_name c) \<and> truthy_str (cust_phone c)"
  using assms
  by (cases x) (auto simp: joi_customer_def joi_string_required_def truthy_str_def)

lemma joi_paymentMethod_props:
  assumes "joi_paymentMethod x"
  shows "\<exists>p. x = Some p \<and> p \<in> set payment_enum"
  using assms
  by (cases x) (auto simp: joi_paymentMethod_def payment_enum_def)

lemma validators_order_pass:
  "validators_order b = [] \<longleftrightarrow>
     joi_customer (body_customer b) \<and> joi_items (body_items b)
     \<and> joi_paymentMethod (body_paymentMethod b)
     \<and> joi_changeFor (body_paymentMethod b) (body_changeFor b)"
  by (simp add: validators_order_def)

lemma service_accepts_validated:
  assumes cust: "joi_customer (body_customer b)"
      and its: "joi_items (body_items b)"
      and pay: "joi_paymentMethod (body_paymentMethod b)"
      and cat: "\<forall>item\<in>set (the (body_items b)). check_item cat t item = None"
  shows "\<exists>ord. orderService_createOrder cat today now os t b = Inr (ord, os @ [ord])
           \<and> paymentMethod ord = body_paymentMethod b \<and> changeFor ord = body_changeFor b
           \<and> status ord = ''pending''"
proof -
  from joi_items_props [OF its] obtain xs where
    xs: "body_items b = Some xs" "xs \<noteq> []" "list_all (\<lambda>it. 1 \<le> quantity it) xs"
    by blast
  from joi_customer_props [OF cust] obtain c where
    c: "body_customer b = Some c" "truthy_str (cust_name c)" "truthy_str (cust_phone c)"
    by blast
  from joi_paymentMethod_props [OF pay] obtain p where
    p: "body_paymentMethod b = Some p" "p \<in> set payment_enum"
    by blast
  from cat xs have run: "process_items cat t xs 0 = Inr (0 + sum_list (map item_amount xs))"
    by (intro process_items_passes) simp
  let ?fee = "case body_deliveryFee b of None \<Rightarrow> 0 | Some f \<Rightarrow> f"
  let ?built = "\<lparr> oid = 0, tenantId = t, orderNumber = generateOrderNumber os t today,
                   status = ''pending'', customer = c, items = xs,
                   paymentMethod = body_paymentMethod b, changeFor = body_changeFor b,
                   deliveryFee = ?fee, subtotal = sum_list (map item_amount xs),
                   total = sum_list (map item_amount xs) + ?fee,
                   rating = None, order_notes = body_notes b, createdAt = 0 \<rparr>"
  have built: "build_order cat today os t b = Inr ?built"
    using xs c run by (simp add: build_order_def Let_def)
  let ?doc = "?built\<lparr> oid := fresh_id os, createdAt := now \<rparr>"
  have "schema_valid ?doc"
    using xs c p generateOrderNumber_nonempty [of os t today]
    by (simp add: schema_valid_def status_enum_def)
  then have "save_new now os ?built = Inr (?doc, os @ [?doc])"
    by (simp add: save_new_def Let_def)
  with built have "orderService_createOrder cat today now os t b = Inr (?doc, os @ [?doc])"
    by (simp add: orderService_createOrder_def)
  then show ?thesis by simp
qed

lemma route_rejects:
  "validators_order b \<noteq> [] \<Longrightarrow>
   route_createOrder e w t b = (Response 400 (SchemaRejected (validators_order b)), w)"
  by (simp add: route_createOrder_def validate_def)

lemma route_created_passed_schema:
  assumes "code (fst (route_createOrder e w t b)) = 201"
  shows "validators_order b = []"
proof (rule ccontr)
  assume "validators_order b \<noteq> []"
  from route_rejects [OF this] assms show False by simp
qed

text \<open>
  Claim C4. Over \<open>POST /:tenantId\<close> a \<open>changeFor\<close> is accepted only together with cash, and
  cash does not require it: a request that is not cash and names a change is answered with
  400 by the request schema, which lists \<open>changeFor\<close>, and nothing is stored; every
  created order that names a change is a cash order; a cash request without change whose
  customer and items pass the schema and whose items pass the catalog checks is created,
  stored as a cash order without change.
\<close>

theorem changeFor_only_with_cash:
  "(body_paymentMethod b \<noteq> Some ''cash'' \<and> body_changeFor b \<noteq> None
      \<longrightarrow> ''changeFor'' \<in> set (validators_order b)
          \<and> route_createOrder e w t b = (Response 400 (SchemaRejected (validators_order b)), w))
   \<and> (code (fst (route_createOrder e w t b)) = 201 \<and> body_changeFor b \<noteq> None
      \<longrightarrow> body_paymentMethod b = Some ''cash'')
   \<and> (body_paymentMethod b = Some ''cash'' \<and> body_changeFor b = None
       \<and> joi_customer (body_customer b) \<and> joi_items (body_items b)
       \<and> (\<forall>item\<in>set (the (body_items b)). check_item (catalog w) t item = None)
      \<longrightarrow> code (fst (route_createOrder e w t b)) = 201
          \<and> (\<exists>ord. orders (snd (route_createOrder e w t b)) = orders w @ [ord]
                 \<and> paymentMethod ord = Some ''cash'' \<and> changeFor ord = None))"
proof (intro conjI impI)
  assume a: "body_paymentMethod b \<noteq> Some ''cash'' \<and> body_changeFor b \<noteq> None"
  then show bad: "''changeFor'' \<in> set (validators_order b)"
    by (simp add: validators_order_def joi_changeFor_def)
  then have "validators_order b \<noteq> []" by auto
  then show "route_createOrder e w t b = (Response 400 (SchemaRejected (validators_order b)), w)"
    by (rule route_rejects)
next
  assume a: "code (fst (route_createOrder e w t b)) = 201 \<and> body_changeFor b \<noteq> None"
  then have "validators_order b = []"
    using route_created_passed_schema by blast
  then have "joi_changeFor (body_paymentMethod b) (body_changeFor b)"
    by (simp add: validators_order_pass)
  with a show "body_paymentMethod b = Some ''cash''"
    by (simp add: joi_changeFor_def split: if_splits)
next
  assume a: "body_paymentMethod b = Some ''cash'' \<and> body_changeFor b = None
       \<and> joi_customer (body_customer b) \<and> joi_items (body_items b)
       \<and> (\<forall>item\<in>set (the (body_items b)). check_item (catalog w) t item = None)"
  then have pay: "joi_paymentMethod (body_paymentMethod b)"
    by (simp add: joi_paymentMethod_def payment_enum_def)
  from a have pass: "validators_order b = []"
    by (simp add: validators_order_pass joi_paymentMethod_def joi_changeFor_def)
  from a pay service_accepts_validated [of b "catalog w" t "now_iso e" "now_ms e" "orders w"]
  obtain ord where
    svc: "orderService_createOrder (catalog w) (now_iso e) (now_ms e) (orders w) t b
            = Inr (ord, orders w @ [ord])"
    and f: "paymentMethod ord = Some ''cash''" "changeFor ord = None"
    by auto
  from createOrder_controller_persisted [OF svc]
  have "code (fst (orderController_createOrder e w t b)) = 201"
    "orders (snd (orderController_createOrder e w t b)) = orders w @ [ord]"
    by simp_all
  then have r: "code (fst (route_createOrder e w t b)) = 201"
    "orders (snd (route_createOrder e w t b)) = orders w @ [ord]"
    by (simp_all add: route_createOrder_def validate_def pass)
  from r(1) show "code (fst (route_createOrder e w t b)) = 201" .
  from r(2) f show "\<exists>ord. orders (snd (route_createOrder e w t b)) = orders w @ [ord]
                 \<and> paymentMethod ord = Some ''cash'' \<and> changeFor ord = None"
    by blast
qed

text \<open>Scenario C.\<close>

theorem changeFor_only_with_cash_witness:
  "code (fst (route_createOrder silent_env empty_world ''t1'' scenarioA)) = 201
   \<and> route_createOrder silent_env empty_world ''t1'' pix_with_change
       = (Response 400 (SchemaRejected [''changeFor'']), empty_world)"
proof -
  have a: "body_paymentMethod scenarioA = Some ''cash'' \<and> body_changeFor scenarioA = None
       \<and> joi_customer (body_customer scenarioA) \<and> joi_items (body_items scenarioA)
       \<and> (\<forall>item\<in>set (the (body_items scenarioA)). check_item (catalog empty_world) ''t1'' item = None)"
    by (simp add: scenarioA_def joi_customer_def joi_string_required_def joi_items_def joi_item_def
          joi_string_def joi_option_def is_integer_def check_item_def)
  have b: "body_paymentMethod pix_with_change \<noteq> Some ''cash'' \<and> body_changeFor pix_with_change \<noteq> None"
    by (simp add: pix_with_change_def)
  have v: "validators_order pix_with_change = [''changeFor'']"
    by (simp add: pix_with_change_def scenarioA_def validators_order_def joi_customer_def
          joi_string_required_def joi_items_def joi_item_def joi_string_def joi_option_def
          is_integer_def joi_paymentMethod_def joi_changeFor_def)
  from changeFor_only_with_cash [of scenarioA silent_env empty_world "''t1''"] a
  have "code (fst (route_createOrder silent_env empty_world ''t1'' scenarioA)) = 201"
    by blast
  moreover from changeFor_only_with_cash [of pix_with_change silent_env empty_world "''t1''"] b
  have "route_createOrder silent_env empty_world ''t1'' pix_with_change
       = (Response 400 (SchemaRejected (validators_order pix_with_change)), empty_world)"
    by blast
  ultimately show ?thesis by (simp add: v)
qed

text \<open>Called directly, the service stores the pix order with its change.\<close>

lemma service_alone_keeps_changeFor:
  "\<exists>ord os'. orderService_createOrder [] ''2026-11-03T10:00:00.000Z'' 3000 [] ''t1'' pix_with_change
      = Inr (ord, os') \<and> paymentMethod ord = Some ''pix'' \<and> changeFor ord = Some 10"
proof -
  have "joi_customer (body_customer pix_with_change) \<and> joi_items (body_items pix_with_change)
        \<and> joi_paymentMethod (body_paymentMethod pix_with_change)
        \<and> (\<forall>item\<in>set (the (body_items pix_with_change)). check_item [] ''t1'' item = None)"
    by (simp add: pix_with_change_def scenarioA_def joi_customer_def joi_string_required_def
          joi_items_def joi_item_def joi_string_def joi_option_def is_integer_def
          joi_paymentMethod_def check_item_def)
  with service_accepts_validated [of pix_with_change "[]" "''t1''" "''2026-11-03T10:00:00.000Z''" 3000 "[]"]
  show ?thesis
    by (auto simp: pix_with_change_def)
qed







subsection \<open>Options without a price\<close>






















text \<open>Count and sum of the orders of one status, as a row of the breakdown shows them.\<close>

definition status_row :: "order list \<Rightarrow> string \<Rightarrow> nat \<times> rat" where
  "status_row xs st =
     (length (filter (\<lambda>ord. status ord = st) xs),
      sum_list (map total (filter (\<lambda>ord. status ord = st) xs)))"

subsection \<open>Statistics\<close>

lemma fold_rows:
  "fold (\<lambda>row acc. acc(fst row \<mapsto> snd row)) (map (\<lambda>st. (st, f st)) keys) m k
     = (if k \<in> set keys then Some (f k) else m k)"
  by (induction keys arbitrary: m) auto

lemma ordersByStatus_rows: "ordersByStatus xs = map (\<lambda>st. (st, status_row xs st)) (remdups (map status xs))"
  by (simp add: ordersByStatus_def status_row_def)

lemma byStatus_row:
  "byStatus (getOrderStatistics os t s e) st
     = (if st \<in> status ` set (dateFilter t s e os)
        then Some (status_row (dateFilter t s e os) st) else None)"
  by (simp add: getOrderStatistics_def Let_def ordersByStatus_rows fold_rows)

lemma partition_sum:
  assumes "finite S" and "g ` set xs \<subseteq> S"
  shows "(\<Sum>k\<in>S. sum_list (map f (filter (\<lambda>x. g x = k) xs))) = (sum_list (map f xs) :: rat)"
  using assms(2)
proof (induction xs)
  case Nil
  then show ?case by simp
next
  case (Cons x xs)
  then have in_S: "g x \<in> S" and rest: "g ` set xs \<subseteq> S" by simp_all
  have "(\<Sum>k\<in>S. sum_list (map f (filter (\<lambda>y. g y = k) (x # xs))))
          = (\<Sum>k\<in>S. (if g x = k then f x else 0) + sum_list (map f (filter (\<lambda>y. g y = k) xs)))"
    by (intro sum.cong) simp_all
  also have "\<dots> = (\<Sum>k\<in>S. if g x = k then f x else 0)
                   + (\<Sum>k\<in>S. sum_list (map f (filter (\<lambda>y. g y = k) xs)))"
    by (simp add: sum.distrib)
  also have "(\<Sum>k\<in>S. if g x = k then f x else 0) = f x"
    using assms(1) in_S by simp
  finally show ?case using Cons.IH [OF rest] by simp
qed

lemma partition_count:
  assumes "finite S" and "g ` set xs \<subseteq> S"
  shows "(\<Sum>k\<in>S. length (filter (\<lambda>x. g x = k) xs)) = length xs"
  using assms(2)
proof (induction xs)
  case Nil
  then show ?case by simp
next
  case (Cons x xs)
  then have in_S: "g x \<in> S" and rest: "g ` set xs \<subseteq> S" by simp_all
  have "(\<Sum>k\<in>S. length (filter (\<lambda>y. g y = k) (x # xs)))
          = (\<Sum>k\<in>S. (if g x = k then 1 else 0) + length (filter (\<lambda>y. g y = k) xs))"
    by (intro sum.cong) simp_all
  also have "\<dots> = (\<Sum>k\<in>S. if g x = k then 1 else 0)
                   + (\<Sum>k\<in>S. length (filter (\<lambda>y. g y = k) xs))"
    by (simp add: sum.distrib)
  also have "(\<Sum>k\<in>S. if g x = k then 1 else 0) = (1::nat)"
    using assms(1) in_S by simp
  finally show ?case using Cons.IH [OF rest] by simp
qed

text \<open>
  Claim C6. For the orders of a tenant created inside the closed window, whatever their
  status: \<open>totalOrders\<close> is their number, \<open>totalSales\<close> the sum of their totals,
  \<open>averageTicket\<close> the mean of their totals (0 when there are none), and \<open>byStatus\<close> has, for
  each status that occurs, the number of its orders and the sum of their totals, and no
  entry for a status that does not occur. The counts and sums of the breakdown add up to
  \<open>totalOrders\<close> and \<open>totalSales\<close>. An empty window gives 0, the empty breakdown, 0 and 0.
\<close>

theorem statistics_of_window:
  "totalOrders (getOrderStatistics os t s e) = length (dateFilter t s e os)
   \<and> set (dateFilter t s e os) = {ord \<in> set os. tenantId ord = t \<and> s \<le> createdAt ord \<and> createdAt ord \<le> e}
   \<and> totalSales (getOrderStatistics os t s e) = sum_list (map total (dateFilter t s e os))
   \<and> averageTicket (getOrderStatistics os t s e)
       = (if dateFilter t s e os = [] then 0
          else sum_list (map total (dateFilter t s e os)) / of_nat (length (dateFilter t s e os)))
   \<and> (\<forall>st. byStatus (getOrderStatistics os t s e) st
         = (if st \<in> status ` set (dateFilter t s e os)
            then Some (length (filter (\<lambda>ord. status ord = st) (dateFilter t s e os)),
                       sum_list (map total (filter (\<lambda>ord. status ord = st) (dateFilter t s e os))))
            else None))
   \<and> (\<Sum>st\<in>status ` set (dateFilter t s e os).
         fst (the (byStatus (getOrderStatistics os t s e) st))) = totalOrders (getOrderStatistics os t s e)
   \<and> (\<Sum>st\<in>status ` set (dateFilter t s e os).
         snd (the (byStatus (getOrderStatistics os t s e) st))) = totalSales (getOrderStatistics os t s e)
   \<and> (dateFilter t s e os = []
       \<longrightarrow> totalOrders (getOrderStatistics os t s e) = 0
           \<and> byStatus (getOrderStatistics os t s e) = Map.empty
           \<and> averageTicket (getOrderStatistics os t s e) = 0
           \<and> totalSales (getOrderStatistics os t s e) = 0)"
proof -
  let ?m = "dateFilter t s e os"
  let ?r = "getOrderStatistics os t s e"
  have n: "totalOrders ?r = length ?m"
    by (simp add: getOrderStatistics_def Let_def)
  have w: "set ?m = {ord \<in> set os. tenantId ord = t \<and> s \<le> createdAt ord \<and> createdAt ord \<le> e}"
    by (auto simp: dateFilter_def)
  have sales: "totalSales ?r = sum_list (map total ?m)"
    by (simp add: getOrderStatistics_def Let_def group_sum_def)
  have avg: "averageTicket ?r = (if ?m = [] then 0 else sum_list (map total ?m) / of_nat (length ?m))"
    by (simp add: getOrderStatistics_def Let_def group_avg_def)
  have rows: "\<forall>st. byStatus ?r st
         = (if st \<in> status ` set ?m
            then Some (length (filter (\<lambda>ord. status ord = st) ?m),
                       sum_list (map total (filter (\<lambda>ord. status ord = st) ?m)))
            else None)"
    by (simp add: byStatus_row status_row_def)
  have counts: "(\<Sum>st\<in>status ` set ?m. fst (the (byStatus ?r st))) = totalOrders ?r"
    using partition_count [of "status ` set ?m" status ?m]
    by (simp add: byStatus_row status_row_def n)
  have sums: "(\<Sum>st\<in>status ` set ?m. snd (the (byStatus ?r st))) = totalSales ?r"
    using partition_sum [of "status ` set ?m" status ?m total]
    by (simp add: byStatus_row status_row_def sales)
  have empty: "?m = [] \<longrightarrow> totalOrders ?r = 0 \<and> byStatus ?r = Map.empty
                 \<and> averageTicket ?r = 0 \<and> totalSales ?r = 0"
    using n sales avg by (auto simp: byStatus_row)
  from n w sales avg rows counts sums empty show ?thesis
    by blast
qed

text \<open>Scenario E, and a window in which nothing was ordered.\<close>

theorem statistics_of_window_witness:
  "totalOrders (getOrderStatistics [order75, order40] ''t1'' 0 5000) = 2
   \<and> byStatus (getOrderStatistics [order75, order40] ''t1'' 0 5000) ''completed'' = Some (1, 75)
   \<and> byStatus (getOrderStatistics [order75, order40] ''t1'' 0 5000) ''cancelled'' = Some (1, 40)
   \<and> byStatus (getOrderStatistics [order75, order40] ''t1'' 0 5000) ''pending'' = None
   \<and> averageTicket (getOrderStatistics [order75, order40] ''t1'' 0 5000) = 57.5
   \<and> totalSales (getOrderStatistics [order75, order40] ''t1'' 0 5000) = 115
   \<and> totalOrders (getOrderStatistics [order75, order40] ''t1'' 6000 7000) = 0
   \<and> byStatus (getOrderStatistics [order75, order40] ''t1'' 6000 7000) = Map.empty
   \<and> averageTicket (getOrderStatistics [order75, order40] ''t1'' 6000 7000) = 0
   \<and> totalSales (getOrderStatistics [order75, order40] ''t1'' 6000 7000) = 0"
proof -
  have m: "dateFilter ''t1'' 0 5000 [order75, order40] = [order75, order40]"
    by (simp add: dateFilter_def order75_def order40_def)
  have z: "dateFilter ''t1'' 6000 7000 [order75, order40] = []"
    by (simp add: dateFilter_def order75_def order40_def)
  have f: "status order75 = ''completed''" "status order40 = ''cancelled''"
    "total order75 = 75" "total order40 = 40"
    by (simp_all add: order75_def order40_def)
  from statistics_of_window [of "[order75, order40]" "''t1''" 0 5000]
  have a: "totalOrders (getOrderStatistics [order75, order40] ''t1'' 0 5000) = 2
   \<and> byStatus (getOrderStatistics [order75, order40] ''t1'' 0 5000) ''completed'' = Some (1, 75)
   \<and> byStatus (getOrderStatistics [order75, order40] ''t1'' 0 5000) ''cancelled'' = Some (1, 40)
   \<and> byStatus (getOrderStatistics [order75, order40] ''t1'' 0 5000) ''pending'' = None
   \<and> averageTicket (getOrderStatistics [order75, order40] ''t1'' 0 5000) = 57.5
   \<and> totalSales (getOrderStatistics [order75, order40] ''t1'' 0 5000) = 115"
    unfolding m by (simp add: f)
  from statistics_of_window [of "[order75, order40]" "''t1''" 6000 7000] z
  have b: "totalOrders (getOrderStatistics [order75, order40] ''t1'' 6000 7000) = 0
   \<and> byStatus (getOrderStatistics [order75, order40] ''t1'' 6000 7000) = Map.empty
   \<and> averageTicket (getOrderStatistics [order75, order40] ''t1'' 6000 7000) = 0
   \<and> totalSales (getOrderStatistics [order75, order40] ''t1'' 6000 7000) = 0"
    by blast
  from a b show ?thesis by blast
qed

(*THMS*)

end
